theory Spec2Isabelle
  imports Main "HOL-Library.AList" "HOL-Library.Char_ord" "HOL-Library.List_Lexorder"
begin

section \<open>Decoded JSON values and the Python runtime\<close>

text \<open>
  Everything the program handles is a value decoded from a JSON response: the device
  inventory, the TLOC collection and the Nominatim answer. The type parameter \<open>'f\<close> stands
  for Python's \<open>float\<close> objects; the program never computes with floats, it only converts
  to them, tests them for truth and formats them, so these operations are taken from a
  record \<open>py_runtime\<close> and every theorem below holds for every such record.
  Strings are byte strings in UTF-8, whose lexicographic order is the order of the code
  points that Python compares.
\<close>

datatype 'f json =
    JNull
  | JBool bool
  | JInt int
  | JFloat 'f
  | JStr string
  | JList "'f json list"
  | JObj "(string \<times> 'f json) list"

text \<open>A raised exception: its class and \<open>str(e)\<close>.\<close>

datatype py_exception = PyExc (exc_class: string) (exc_str: string)

text \<open>A hashable value as a dictionary sees it: \<open>True\<close>, \<open>1\<close> and \<open>1.0\<close> are one key.\<close>

datatype 'f py_key = KeyNone | KeyInt int | KeyFloat 'f | KeyStr string

record 'f py_runtime =
  float_of_str :: "string \<Rightarrow> py_exception + 'f"
  float_of_int :: "int \<Rightarrow> py_exception + 'f"
  float_bool :: "'f \<Rightarrow> bool"
  float_str :: "'f \<Rightarrow> string"
  float_as_int :: "'f \<Rightarrow> int option"
  float_key_less :: "'f py_key \<Rightarrow> 'f py_key \<Rightarrow> bool"
  container_str :: "'f json \<Rightarrow> string"
  str_upper :: "string \<Rightarrow> string"

definition quote :: string where
  "quote = [CHR 0x27]"

fun nat_str :: "nat \<Rightarrow> string" where
  "nat_str n = (if n < 10 then [char_of (48 + n)]
                else nat_str (n div 10) @ [char_of (48 + n mod 10)])"

declare nat_str.simps [simp del]

definition int_str :: "int \<Rightarrow> string" where
  "int_str i = (if i < 0 then ''-'' @ nat_str (nat (- i)) else nat_str (nat i))"

fun type_name :: "'f json \<Rightarrow> string" where
  "type_name JNull = ''NoneType''"
| "type_name (JBool b) = ''bool''"
| "type_name (JInt i) = ''int''"
| "type_name (JFloat f) = ''float''"
| "type_name (JStr s) = ''str''"
| "type_name (JList xs) = ''list''"
| "type_name (JObj kv) = ''dict''"

text \<open>\<open>bool(v)\<close>, the test behind \<open>if v\<close>, \<open>not v\<close>, \<open>a and b\<close>, \<open>a or b\<close>.\<close>

fun py_truthy :: "'f py_runtime \<Rightarrow> 'f json \<Rightarrow> bool" where
  "py_truthy rt JNull = False"
| "py_truthy rt (JBool b) = b"
| "py_truthy rt (JInt i) = (i \<noteq> 0)"
| "py_truthy rt (JFloat f) = float_bool rt f"
| "py_truthy rt (JStr s) = (s \<noteq> [])"
| "py_truthy rt (JList xs) = (xs \<noteq> [])"
| "py_truthy rt (JObj kv) = (kv \<noteq> [])"

definition py_or :: "'f py_runtime \<Rightarrow> 'f json \<Rightarrow> 'f json \<Rightarrow> 'f json" where
  "py_or rt a b = (if py_truthy rt a then a else b)"

text \<open>\<open>format(v, '')\<close>, what an f-string puts for \<open>{v}\<close>.\<close>

fun py_format :: "'f py_runtime \<Rightarrow> 'f json \<Rightarrow> string" where
  "py_format rt JNull = ''None''"
| "py_format rt (JBool b) = (if b then ''True'' else ''False'')"
| "py_format rt (JInt i) = int_str i"
| "py_format rt (JFloat f) = float_str rt f"
| "py_format rt (JStr s) = s"
| "py_format rt (JList xs) = container_str rt (JList xs)"
| "py_format rt (JObj kv) = container_str rt (JObj kv)"

text \<open>\<open>d.get(k, default)\<close> on a dictionary.\<close>

definition dict_get :: "(string \<times> 'f json) list \<Rightarrow> string \<Rightarrow> 'f json \<Rightarrow> 'f json" where
  "dict_get d k dflt = (case map_of d k of None \<Rightarrow> dflt | Some v \<Rightarrow> v)"

definition attribute_error :: "'f json \<Rightarrow> string \<Rightarrow> py_exception" where
  "attribute_error v attr =
     PyExc ''AttributeError''
       (quote @ type_name v @ quote @ '' object has no attribute '' @ quote @ attr @ quote)"

definition type_error :: "string \<Rightarrow> py_exception" where
  "type_error msg = PyExc ''TypeError'' msg"

text \<open>\<open>hash(v)\<close> on the way into a dictionary: lists and dictionaries are unhashable.\<close>

fun dict_key :: "'f py_runtime \<Rightarrow> 'f json \<Rightarrow> py_exception + 'f py_key" where
  "dict_key rt JNull = Inr KeyNone"
| "dict_key rt (JBool b) = Inr (KeyInt (if b then 1 else 0))"
| "dict_key rt (JInt i) = Inr (KeyInt i)"
| "dict_key rt (JFloat f) =
     Inr (case float_as_int rt f of Some i \<Rightarrow> KeyInt i | None \<Rightarrow> KeyFloat f)"
| "dict_key rt (JStr s) = Inr (KeyStr s)"
| "dict_key rt (JList xs) = Inl (type_error (''unhashable type: '' @ quote @ ''list'' @ quote))"
| "dict_key rt (JObj kv) = Inl (type_error (''unhashable type: '' @ quote @ ''dict'' @ quote))"

text \<open>\<open>float(v)\<close> (the wording of the \<open>TypeError\<close> is that of Python 3.10 and later).\<close>

fun py_float :: "'f py_runtime \<Rightarrow> 'f json \<Rightarrow> py_exception + 'f" where
  "py_float rt (JFloat f) = Inr f"
| "py_float rt (JInt i) = float_of_int rt i"
| "py_float rt (JBool b) = float_of_int rt (if b then 1 else 0)"
| "py_float rt (JStr s) = float_of_str rt s"
| "py_float rt v =
     Inl (type_error (''float() argument must be a string or a real number, not ''
            @ quote @ type_name v @ quote))"

text \<open>\<open>sep.join(items)\<close>: every item has to be a string.\<close>

fun join_items :: "nat \<Rightarrow> 'f json list \<Rightarrow> py_exception + string list" where
  "join_items i [] = Inr []"
| "join_items i (JStr s # vs) =
     (case join_items (Suc i) vs of Inl e \<Rightarrow> Inl e | Inr ss \<Rightarrow> Inr (s # ss))"
| "join_items i (v # vs) =
     Inl (type_error (''sequence item '' @ nat_str i @ '': expected str instance, ''
            @ type_name v @ '' found''))"

fun intercalate :: "string \<Rightarrow> string list \<Rightarrow> string" where
  "intercalate sep [] = []"
| "intercalate sep [s] = s"
| "intercalate sep (s # ss) = s @ sep @ intercalate sep ss"

definition py_join :: "string \<Rightarrow> 'f json list \<Rightarrow> py_exception + string" where
  "py_join sep items =
     (case join_items 0 items of Inl e \<Rightarrow> Inl e | Inr ss \<Rightarrow> Inr (intercalate sep ss))"

text \<open>
  \<open>v.upper()\<close>: only strings have the method. On an ASCII string it maps \<open>a\<close>-\<open>z\<close> to
  \<open>A\<close>-\<open>Z\<close>; the case mapping of other strings is the runtime's.
\<close>

definition ascii_upper :: "char \<Rightarrow> char" where
  "ascii_upper c =
     (if (97::nat) \<le> of_char c \<and> of_char c \<le> (122::nat) then char_of (of_char c - (32::nat)) else c)"

definition upper :: "'f py_runtime \<Rightarrow> string \<Rightarrow> string" where
  "upper rt s =
     (if list_all (\<lambda>c. of_char c < (128::nat)) s then map ascii_upper s else str_upper rt s)"

definition py_upper :: "'f py_runtime \<Rightarrow> 'f json \<Rightarrow> py_exception + 'f json" where
  "py_upper rt v =
     (case v of JStr s \<Rightarrow> Inr (JStr (upper rt s)) | _ \<Rightarrow> Inl (attribute_error v ''upper''))"

section \<open>The outside world: HTTP and standard output\<close>

text \<open>
  A request is answered by an oracle that sees how many requests went out before it, so
  the same request may be answered differently the second time. \<open>requests\<close> either raises
  (a transport error, a timeout) or returns a response; \<open>response.json()\<close> either raises or
  returns the decoded body.
\<close>

datatype 'f http_request =
  HttpRequest (req_method: string) (req_url: string)
    (req_params: "(string \<times> 'f json) list") (req_headers: "(string \<times> string) list")

record 'f http_response =
  status_code :: int
  resp_text :: string
  resp_json :: "py_exception + 'f json"

type_synonym 'f network = "nat \<Rightarrow> 'f http_request \<Rightarrow> py_exception + 'f http_response"

record 'f world =
  http_log :: "'f http_request list"
  stdout :: "string list"

definition http_send ::
  "'f network \<Rightarrow> 'f world \<Rightarrow> 'f http_request \<Rightarrow> (py_exception + 'f http_response) \<times> 'f world" where
  "http_send net w req = (net (length (http_log w)) req, w\<lparr>http_log := http_log w @ [req]\<rparr>)"

definition print :: "string \<Rightarrow> 'f world \<Rightarrow> 'f world" where
  "print line w = w\<lparr>stdout := stdout w @ [line]\<rparr>"

section \<open>GeocodeService\<close>

record 'f geolocation =
  display_name :: "'f json"
  city :: "'f json"
  state :: "'f json"
  country :: "'f json"
  country_code :: "'f json"
  postcode :: "'f json"
  formatted_address :: "'f json"

record 'f geocode_service =
  cache :: "string \<rightharpoonup> 'f geolocation"

definition GeocodeService :: "'f geocode_service" where
  "GeocodeService = \<lparr>cache = Map.empty\<rparr>"

text \<open>\<open>_format_address\<close> (lines 76-97).\<close>

definition resolve_city :: "'f py_runtime \<Rightarrow> (string \<times> 'f json) list \<Rightarrow> 'f json \<Rightarrow> 'f json" where
  "resolve_city rt a dflt =
     py_or rt (py_or rt (py_or rt (dict_get a ''city'' JNull) (dict_get a ''town'' JNull))
                 (dict_get a ''village'' JNull))
       (dict_get a ''hamlet'' dflt)"

definition resolve_state :: "'f py_runtime \<Rightarrow> (string \<times> 'f json) list \<Rightarrow> 'f json \<Rightarrow> 'f json" where
  "resolve_state rt a dflt = py_or rt (dict_get a ''state'' JNull) (dict_get a ''province'' dflt)"

definition address_components :: "'f py_runtime \<Rightarrow> (string \<times> 'f json) list \<Rightarrow> 'f json list" where
  "address_components rt a =
     (let city = resolve_city rt a JNull;
          state = resolve_state rt a JNull
      in (if py_truthy rt city then [city] else [])
         @ (if py_truthy rt state then [state] else [])
         @ (if py_truthy rt (dict_get a ''country'' JNull) then [dict_get a ''country'' JNull] else []))"

definition format_address :: "'f py_runtime \<Rightarrow> 'f json \<Rightarrow> py_exception + 'f json" where
  "format_address rt address =
     (case address of
        JObj a \<Rightarrow>
          (let components = address_components rt a
           in if components \<noteq> []
              then (case py_join '', '' components of Inl e \<Rightarrow> Inl e | Inr s \<Rightarrow> Inr (JStr s))
              else Inr (JStr ''Unknown Location''))
      | _ \<Rightarrow> Inl (attribute_error address ''get''))"

text \<open>
  Lines 43-58: the dictionary built from a decoded answer. The entries are evaluated in
  the order of the source, so the first failing one decides the exception.
\<close>

definition location_info_of :: "'f py_runtime \<Rightarrow> 'f json \<Rightarrow> py_exception + 'f geolocation" where
  "location_info_of rt data =
     (case data of
        JObj d \<Rightarrow>
          (let address = dict_get d ''address'' (JObj []) in
           case address of
             JObj a \<Rightarrow>
               (case py_upper rt (dict_get a ''country_code'' (JStr [])) of
                  Inl e \<Rightarrow> Inl e
                | Inr cc \<Rightarrow>
                    (case format_address rt address of
                       Inl e \<Rightarrow> Inl e
                     | Inr fa \<Rightarrow>
                         Inr \<lparr>display_name = dict_get d ''display_name'' (JStr ''Unknown Location''),
                              city = resolve_city rt a (JStr ''Unknown City''),
                              state = resolve_state rt a (JStr ''Unknown State''),
                              country = dict_get a ''country'' (JStr ''Unknown Country''),
                              country_code = cc,
                              postcode = dict_get a ''postcode'' (JStr []),
                              formatted_address = fa\<rparr>))
           | _ \<Rightarrow> Inl (attribute_error address ''get''))
      | _ \<Rightarrow> Inl (attribute_error data ''get''))"

text \<open>Lines 66-74: the dictionary built from the raw coordinates.\<close>

definition fallback_location :: "'f py_runtime \<Rightarrow> 'f \<Rightarrow> 'f \<Rightarrow> 'f geolocation" where
  "fallback_location rt lat lon =
     \<lparr>display_name = JStr (''Location at '' @ float_str rt lat @ '', '' @ float_str rt lon),
      city = JStr ''Unknown City'',
      state = JStr ''Unknown State'',
      country = JStr ''Unknown Country'',
      country_code = JStr [],
      postcode = JStr [],
      formatted_address = JStr (float_str rt lat @ '', '' @ float_str rt lon)\<rparr>"

definition cache_key :: "'f py_runtime \<Rightarrow> 'f \<Rightarrow> 'f \<Rightarrow> string" where
  "cache_key rt lat lon = float_str rt lat @ '','' @ float_str rt lon"

definition geocode_request :: "'f \<Rightarrow> 'f \<Rightarrow> 'f http_request" where
  "geocode_request lat lon =
     HttpRequest ''GET'' ''https://nominatim.openstreetmap.org/reverse''
       [(''lat'', JFloat lat), (''lon'', JFloat lon), (''format'', JStr ''json''),
        (''addressdetails'', JInt 1)]
       [(''User-Agent'', ''SD-WAN-Location-Mapper/1.0'')]"

text \<open>
  The body of the \<open>try\<close> (lines 28-61) from the answer of \<open>requests.get\<close> on: \<open>Inl e\<close> is an
  exception on its way to the handler, \<open>Inr None\<close> a status other than 200, which leaves the
  \<open>if\<close> without a value, \<open>Inr (Some g)\<close> the dictionary that is cached and returned.
  \<open>time.sleep(1)\<close> follows every request that returned and changes no value.
\<close>

definition geocode_lookup ::
  "'f py_runtime \<Rightarrow> py_exception + 'f http_response \<Rightarrow> py_exception + 'f geolocation option" where
  "geocode_lookup rt answer =
     (case answer of
        Inl e \<Rightarrow> Inl e
      | Inr response \<Rightarrow>
          if status_code response = 200
          then (case resp_json response of
                  Inl e \<Rightarrow> Inl e
                | Inr data \<Rightarrow>
                    (case location_info_of rt data of Inl e \<Rightarrow> Inl e | Inr g \<Rightarrow> Inr (Some g)))
          else Inr None)"

definition reverse_geocode_nominatim ::
  "'f py_runtime \<Rightarrow> 'f network \<Rightarrow> 'f geocode_service \<times> 'f world \<Rightarrow> 'f \<Rightarrow> 'f
     \<Rightarrow> 'f geolocation \<times> 'f geocode_service \<times> 'f world" where
  "reverse_geocode_nominatim rt net sw lat lon =
     (let self = fst sw; w = snd sw in
      case cache self (cache_key rt lat lon) of
        Some g \<Rightarrow> (g, self, w)
      | None \<Rightarrow>
          (let (answer, w1) = http_send net w (geocode_request lat lon) in
           case geocode_lookup rt answer of
             Inr (Some location_info) \<Rightarrow>
               (location_info,
                self\<lparr>cache := (cache self)(cache_key rt lat lon \<mapsto> location_info)\<rparr>, w1)
           | Inr None \<Rightarrow> (fallback_location rt lat lon, self, w1)
           | Inl e \<Rightarrow>
               (fallback_location rt lat lon, self,
                print (''WARNING: Geocoding failed for '' @ float_str rt lat @ '','' @ float_str rt lon
                         @ '': '' @ exc_str e) w1)))"

section \<open>SDWANSiteExtractorWithGeo\<close>

text \<open>
  The dictionaries the extractor builds have fixed keys and are records here; a key that
  is only sometimes present (\<open>location\<close> and \<open>tloc_info\<close> of a device) is an option. The
  device's \<open>location\<close> is the field \<open>dev_location\<close>, the site's keeps its name.
\<close>

record 'f location_info =
  latitude :: 'f
  longitude :: 'f
  is_device_gps :: "'f json"
  geocoded :: "'f geolocation"

record 'f tloc_entry =
  color :: "'f json"
  control_connections_up :: "'f json"
  bfd_sessions_up :: "'f json"

record 'f device_info =
  hostname :: "'f json"
  system_ip :: "'f json"
  device_type :: "'f json"
  device_model :: "'f json"
  reachability :: "'f json"
  version :: "'f json"
  platform :: "'f json"
  dev_location :: "'f location_info option"
  tloc_info :: "'f tloc_entry list option"

record 'f site =
  devices :: "'f device_info list"
  location :: "'f location_info option"
  geocoded_location :: "'f geolocation option"
  site_type :: string

text \<open>
  The \<open>defaultdict\<close> of sites, in insertion order: each entry holds the key as the
  dictionary compares it, the key object that was inserted, and the site.
\<close>

type_synonym 'f sites = "('f py_key \<times> 'f json \<times> 'f site) list"

record 'f extractor =
  base_url :: string
  username :: string
  password :: string
  session_headers :: "(string \<times> string) list"
  token :: "string option"
  geocoder :: "'f geocode_service"

definition rstrip :: "char \<Rightarrow> string \<Rightarrow> string" where
  "rstrip c s = rev (dropWhile (\<lambda>x. x = c) (rev s))"

definition SDWANSiteExtractorWithGeo :: "string \<Rightarrow> string \<Rightarrow> string \<Rightarrow> 'f extractor" where
  "SDWANSiteExtractorWithGeo url user pass =
     \<lparr>base_url = rstrip CHR ''/'' url, username = user, password = pass,
      session_headers = [], token = None, geocoder = GeocodeService\<rparr>"

text \<open>
  The three calls to the controller (lines 109-138). None of them has a \<open>try\<close>: an
  exception of \<open>requests\<close> or of \<open>response.json()\<close> leaves the method.
\<close>

definition login_request :: "'f extractor \<Rightarrow> 'f http_request" where
  "login_request self =
     HttpRequest ''POST'' (base_url self @ ''/j_security_check'')
       [(''j_username'', JStr (username self)), (''j_password'', JStr (password self))]
       (session_headers self)"

definition get_request :: "'f extractor \<Rightarrow> string \<Rightarrow> 'f http_request" where
  "get_request self path = HttpRequest ''GET'' (base_url self @ path) [] (session_headers self)"

definition authenticate ::
  "'f network \<Rightarrow> 'f extractor \<times> 'f world \<Rightarrow> py_exception + bool \<times> 'f extractor \<times> 'f world" where
  "authenticate net sw =
     (let self = fst sw; w = snd sw;
          (answer, w1) = http_send net w (login_request self)
      in case answer of
           Inl e \<Rightarrow> Inl e
         | Inr response \<Rightarrow>
             if status_code response = 200
             then (let (token_answer, w2) =
                         http_send net w1 (get_request self ''/dataservice/client/token'')
                   in case token_answer of
                        Inl e \<Rightarrow> Inl e
                      | Inr token_response \<Rightarrow>
                          if status_code token_response = 200
                          then Inr (True,
                                 self\<lparr>token := Some (resp_text token_response),
                                      session_headers :=
                                        AList.update ''X-XSRF-TOKEN'' (resp_text token_response)
                                          (session_headers self)\<rparr>, w2)
                          else Inr (False, self, w2))
             else Inr (False, self, w1))"

definition fetch_json ::
  "'f network \<Rightarrow> 'f extractor \<times> 'f world \<Rightarrow> string \<Rightarrow> py_exception + 'f json \<times> 'f world" where
  "fetch_json net sw path =
     (let self = fst sw; w = snd sw;
          (answer, w1) = http_send net w (get_request self path)
      in case answer of
           Inl e \<Rightarrow> Inl e
         | Inr response \<Rightarrow>
             if status_code response = 200
             then (case resp_json response of Inl e \<Rightarrow> Inl e | Inr v \<Rightarrow> Inr (v, w1))
             else Inr (JNull, w1))"

definition get_devices ::
  "'f network \<Rightarrow> 'f extractor \<times> 'f world \<Rightarrow> py_exception + 'f json \<times> 'f world" where
  "get_devices net sw = fetch_json net sw ''/dataservice/device''"

definition get_tloc_data ::
  "'f network \<Rightarrow> 'f extractor \<times> 'f world \<Rightarrow> py_exception + 'f json \<times> 'f world" where
  "get_tloc_data net sw = fetch_json net sw ''/dataservice/device/tloc''"

subsection \<open>The device loop (lines 162-206)\<close>

definition device_info_of :: "(string \<times> 'f json) list \<Rightarrow> 'f device_info" where
  "device_info_of d =
     \<lparr>hostname = dict_get d ''host-name'' (JStr ''N/A''),
      system_ip = dict_get d ''system-ip'' (JStr ''N/A''),
      device_type = dict_get d ''device-type'' (JStr ''N/A''),
      device_model = dict_get d ''device-model'' (JStr ''N/A''),
      reachability = dict_get d ''reachability'' (JStr ''N/A''),
      version = dict_get d ''version'' (JStr ''N/A''),
      platform = dict_get d ''platform'' (JStr ''N/A''),
      dev_location = None,
      tloc_info = None\<rparr>"

text \<open>Line 178: \<open>device.get('latitude') and device.get('longitude')\<close>.\<close>

definition has_coordinates :: "'f py_runtime \<Rightarrow> (string \<times> 'f json) list \<Rightarrow> bool" where
  "has_coordinates rt d \<longleftrightarrow>
     py_truthy rt (dict_get d ''latitude'' JNull) \<and> py_truthy rt (dict_get d ''longitude'' JNull)"

text \<open>Lines 178-191: the location of one device, with its reverse geocoding.\<close>

definition locate ::
  "'f py_runtime \<Rightarrow> 'f network \<Rightarrow> 'f geocode_service \<times> 'f world \<Rightarrow> (string \<times> 'f json) list
     \<Rightarrow> py_exception + 'f location_info option \<times> 'f geocode_service \<times> 'f world" where
  "locate rt net gw d =
     (if has_coordinates rt d
      then (case py_float rt (dict_get d ''latitude'' JNull) of
              Inl e \<Rightarrow> Inl e
            | Inr lat \<Rightarrow>
                (case py_float rt (dict_get d ''longitude'' JNull) of
                   Inl e \<Rightarrow> Inl e
                 | Inr lon \<Rightarrow>
                     (let w1 = print (''   Geocoding '' @ float_str rt lat @ '', ''
                                        @ float_str rt lon @ ''...'') (snd gw);
                          (g, svc, w2) = reverse_geocode_nominatim rt net (fst gw, w1) lat lon
                      in Inr (Some \<lparr>latitude = lat, longitude = lon,
                                   is_device_gps = dict_get d ''isDeviceGeoData'' (JBool False),
                                   geocoded = g\<rparr>, svc, w2))))
      else Inr (None, gw))"

text \<open>Lines 201-204: the site type after a device of the given type.\<close>

definition classify :: "'f json \<Rightarrow> string \<Rightarrow> string" where
  "classify dtype current =
     (if dtype \<in> set [JStr ''vmanage'', JStr ''vsmart'', JStr ''vbond''] then ''control_plane''
      else if current = ''unknown'' then ''branch''
      else current)"

definition new_site :: "'f site" where
  "new_site = \<lparr>devices = [], location = None, geocoded_location = None, site_type = ''unknown''\<rparr>"

text \<open>What lines 194-206 do to the site of the device.\<close>

definition site_after ::
  "'f site \<Rightarrow> 'f location_info option \<Rightarrow> 'f json \<Rightarrow> 'f device_info \<Rightarrow> 'f site" where
  "site_after s loc dtype info =
     (let s1 = (if loc \<noteq> None \<and> location s = None
                then s\<lparr>location := loc, geocoded_location := map_option geocoded loc\<rparr>
                else s);
          s2 = s1\<lparr>site_type := classify dtype (site_type s1)\<rparr>
      in s2\<lparr>devices := devices s2 @ [info\<lparr>dev_location := loc\<rparr>]\<rparr>)"

record 'f aggregation =
  sites :: "'f sites"
  geo :: "'f geocode_service"
  out :: "'f world"

definition process_device ::
  "'f py_runtime \<Rightarrow> 'f network \<Rightarrow> nat \<Rightarrow> nat \<Rightarrow> 'f aggregation \<Rightarrow> 'f json
     \<Rightarrow> py_exception + 'f aggregation" where
  "process_device rt net n i st device =
     (case device of
        JObj d \<Rightarrow>
          (let site_id = dict_get d ''site-id'' (JStr ''unknown'');
               w1 = print (''Processing device '' @ nat_str (i + 1) @ ''/'' @ nat_str n @ '': ''
                             @ py_format rt (dict_get d ''host-name'' (JStr ''Unknown''))) (out st)
           in case locate rt net (geo st, w1) d of
                Inl e \<Rightarrow> Inl e
              | Inr (loc, svc, w2) \<Rightarrow>
                  (case dict_key rt site_id of
                     Inl e \<Rightarrow> Inl e
                   | Inr k \<Rightarrow>
                       (let (key_obj, s) = (case map_of (sites st) k of
                                              Some p \<Rightarrow> p | None \<Rightarrow> (site_id, new_site))
                        in Inr \<lparr>sites = AList.update k
                                          (key_obj, site_after s loc (dict_get d ''device-type'' JNull)
                                                      (device_info_of d))
                                          (sites st),
                                geo = svc, out = w2\<rparr>)))
      | _ \<Rightarrow> Inl (attribute_error device ''get''))"

fun process_devices ::
  "'f py_runtime \<Rightarrow> 'f network \<Rightarrow> nat \<Rightarrow> nat \<Rightarrow> 'f aggregation \<Rightarrow> 'f json list
     \<Rightarrow> py_exception + 'f aggregation" where
  "process_devices rt net n i st [] = Inr st"
| "process_devices rt net n i st (device # rest) =
     (case process_device rt net n i st device of
        Inl e \<Rightarrow> Inl e
      | Inr st' \<Rightarrow> process_devices rt net n (Suc i) st' rest)"

subsection \<open>The inventory and the TLOC data (lines 143-150 and 208-229)\<close>

text \<open>
  The decoded inventory is whatever the controller sent, so the operators applied to it
  are modelled on every JSON value: \<open>'data' in v\<close>, \<open>v['data']\<close> and the iteration of a
  \<open>for\<close> loop.
\<close>

fun is_substring :: "string \<Rightarrow> string \<Rightarrow> bool" where
  "is_substring p [] = (p = [])"
| "is_substring p (c # cs) = (take (length p) (c # cs) = p \<or> is_substring p cs)"

fun contains_data :: "'f json \<Rightarrow> py_exception + bool" where
  "contains_data (JObj d) = Inr (map_of d ''data'' \<noteq> None)"
| "contains_data (JList xs) = Inr (JStr ''data'' \<in> set xs)"
| "contains_data (JStr s) = Inr (is_substring ''data'' s)"
| "contains_data v =
     Inl (type_error (''argument of type '' @ quote @ type_name v @ quote @ '' is not iterable''))"

fun subscript_data :: "'f json \<Rightarrow> py_exception + 'f json" where
  "subscript_data (JObj d) =
     (case map_of d ''data'' of
        Some v \<Rightarrow> Inr v
      | None \<Rightarrow> Inl (PyExc ''KeyError'' (quote @ ''data'' @ quote)))"
| "subscript_data (JList xs) =
     Inl (type_error ''list indices must be integers or slices, not str'')"
| "subscript_data (JStr s) =
     Inl (type_error (''string indices must be integers, not '' @ quote @ ''str'' @ quote))"
| "subscript_data v =
     Inl (type_error (quote @ type_name v @ quote @ '' object is not subscriptable''))"

fun py_iter :: "'f json \<Rightarrow> py_exception + 'f json list" where
  "py_iter (JList xs) = Inr xs"
| "py_iter (JObj d) = Inr (map (\<lambda>p. JStr (fst p)) d)"
| "py_iter (JStr s) = Inr (map (\<lambda>c. JStr [c]) s)"
| "py_iter v = Inl (type_error (quote @ type_name v @ quote @ '' object is not iterable''))"

type_synonym 'f tloc_index = "('f py_key \<times> 'f tloc_entry list) list"

definition tloc_entry_of :: "(string \<times> 'f json) list \<Rightarrow> 'f tloc_entry" where
  "tloc_entry_of t =
     \<lparr>color = dict_get t ''color'' (JStr ''N/A''),
      control_connections_up = dict_get t ''controlConnectionsUp'' (JInt 0),
      bfd_sessions_up = dict_get t ''bfdSessionsUp'' (JInt 0)\<rparr>"

fun index_tlocs ::
  "'f py_runtime \<Rightarrow> 'f tloc_index \<Rightarrow> 'f json list \<Rightarrow> py_exception + 'f tloc_index" where
  "index_tlocs rt idx [] = Inr idx"
| "index_tlocs rt idx (tloc # rest) =
     (case tloc of
        JObj t \<Rightarrow>
          (let ip = dict_get t ''system-ip'' JNull in
           if py_truthy rt ip
           then (case dict_key rt ip of
                   Inl e \<Rightarrow> Inl e
                 | Inr k \<Rightarrow>
                     index_tlocs rt
                       (AList.update k
                          ((case map_of idx k of None \<Rightarrow> [] | Some es \<Rightarrow> es) @ [tloc_entry_of t])
                          idx)
                       rest)
           else index_tlocs rt idx rest)
      | _ \<Rightarrow> Inl (attribute_error tloc ''get''))"

definition tloc_by_system_ip :: "'f py_runtime \<Rightarrow> 'f json \<Rightarrow> py_exception + 'f tloc_index" where
  "tloc_by_system_ip rt tloc_data =
     (if py_truthy rt tloc_data
      then (case contains_data tloc_data of
              Inl e \<Rightarrow> Inl e
            | Inr has_data \<Rightarrow>
                if has_data
                then (case subscript_data tloc_data of
                        Inl e \<Rightarrow> Inl e
                      | Inr v \<Rightarrow>
                          (case py_iter v of Inl e \<Rightarrow> Inl e | Inr ts \<Rightarrow> index_tlocs rt [] ts))
                else Inr [])
      else Inr [])"

fun attach_devices ::
  "'f py_runtime \<Rightarrow> 'f tloc_index \<Rightarrow> 'f device_info list \<Rightarrow> py_exception + 'f device_info list" where
  "attach_devices rt idx [] = Inr []"
| "attach_devices rt idx (dev # rest) =
     (case dict_key rt (system_ip dev) of
        Inl e \<Rightarrow> Inl e
      | Inr k \<Rightarrow>
          (case attach_devices rt idx rest of
             Inl e \<Rightarrow> Inl e
           | Inr rest' \<Rightarrow>
               Inr ((case map_of idx k of
                       Some es \<Rightarrow> dev\<lparr>tloc_info := Some es\<rparr>
                     | None \<Rightarrow> dev) # rest')))"

fun attach_sites ::
  "'f py_runtime \<Rightarrow> 'f tloc_index \<Rightarrow> 'f sites \<Rightarrow> py_exception + 'f sites" where
  "attach_sites rt idx [] = Inr []"
| "attach_sites rt idx ((k, key_obj, s) # rest) =
     (case attach_devices rt idx (devices s) of
        Inl e \<Rightarrow> Inl e
      | Inr ds \<Rightarrow>
          (case attach_sites rt idx rest of
             Inl e \<Rightarrow> Inl e
           | Inr rest' \<Rightarrow> Inr ((k, key_obj, s\<lparr>devices := ds\<rparr>) # rest')))"

text \<open>
  \<open>extract_sites_with_geocoding\<close>: \<open>None\<close> when the inventory is missing, the dictionary
  of sites otherwise.
\<close>

definition extract_sites_with_geocoding ::
  "'f py_runtime \<Rightarrow> 'f network \<Rightarrow> 'f extractor \<times> 'f world
     \<Rightarrow> py_exception + 'f sites option \<times> 'f extractor \<times> 'f world" where
  "extract_sites_with_geocoding rt net sw =
     (let self = fst sw; w0 = print ''Getting device data...'' (snd sw) in
      case get_devices net (self, w0) of
        Inl e \<Rightarrow> Inl e
      | Inr (devices_data, w1) \<Rightarrow>
          (case (if py_truthy rt devices_data then contains_data devices_data else Inr False) of
             Inl e \<Rightarrow> Inl e
           | Inr has_data \<Rightarrow>
               if \<not> has_data
               then Inr (None, self, print ''ERROR: Failed to get device data'' w1)
               else
                 (case get_tloc_data net (self, print ''Getting TLOC data...'' w1) of
                    Inl e \<Rightarrow> Inl e
                  | Inr (tloc_data, w3) \<Rightarrow>
                      (case subscript_data devices_data of
                         Inl e \<Rightarrow> Inl e
                       | Inr dd \<Rightarrow>
                           (case py_iter dd of
                              Inl e \<Rightarrow> Inl e
                            | Inr ds \<Rightarrow>
                                (case process_devices rt net (length ds) 0
                                        \<lparr>sites = [], geo = geocoder self,
                                         out = print ''Processing devices and geocoding locations...'' w3\<rparr>
                                        ds of
                                   Inl e \<Rightarrow> Inl e
                                 | Inr st \<Rightarrow>
                                     (case tloc_by_system_ip rt tloc_data of
                                        Inl e \<Rightarrow> Inl e
                                      | Inr idx \<Rightarrow>
                                          (case attach_sites rt idx (sites st) of
                                             Inl e \<Rightarrow> Inl e
                                           | Inr ss \<Rightarrow>
                                               Inr (Some ss, self\<lparr>geocoder := geo st\<rparr>,
                                                    out st)))))))))"


section \<open>The reports\<close>

definition newline :: string where
  "newline = [CHR 0x0A]"

text \<open>\<open>print_geocoded_site_report\<close> (lines 231-296).\<close>

definition device_lines :: "'f py_runtime \<Rightarrow> bool \<Rightarrow> 'f device_info \<Rightarrow> string list" where
  "device_lines rt branch dev =
     [''   ['' @ (if reachability dev = JStr ''reachable'' then ''ONLINE'' else ''OFFLINE'') @ ''] ''
        @ py_format rt (hostname dev) @ '' ('' @ py_format rt (device_type dev) @ '')'',
      ''      System IP: '' @ py_format rt (system_ip dev) @ '', Model: ''
        @ py_format rt (device_model dev),
      ''      Version: '' @ py_format rt (version dev) @ '', Platform: ''
        @ py_format rt (platform dev)]
     @ (if branch
        then (case tloc_info dev of
                None \<Rightarrow> []
              | Some ts \<Rightarrow>
                  ''      Network Connections:''
                  # map (\<lambda>t. ''        '' @ py_format rt (color t) @ '': ''
                               @ py_format rt (control_connections_up t) @ '' control, ''
                               @ py_format rt (bfd_sessions_up t) @ '' BFD'') ts)
        else [])"

definition site_location_lines ::
  "'f py_runtime \<Rightarrow> bool \<Rightarrow> 'f site \<Rightarrow> py_exception + string list" where
  "site_location_lines rt branch s =
     (case geocoded_location s of
        None \<Rightarrow> Inr []
      | Some g \<Rightarrow>
          (case location s of
             None \<Rightarrow> Inl (type_error (quote @ ''NoneType'' @ quote @ '' object is not subscriptable''))
           | Some loc \<Rightarrow>
               Inr ([''   '' @ (if branch
                               then (if py_truthy rt (is_device_gps loc)
                                     then ''Device GPS'' else ''Site Location'')
                               else ''Location'')
                       @ '': '' @ py_format rt (formatted_address g),
                     ''   City: '' @ py_format rt (city g) @ '', '' @ py_format rt (state g)
                       @ '', '' @ py_format rt (country g) @ '' '' @ py_format rt (country_code g)]
                    @ (if py_truthy rt (postcode g)
                       then [''   Postal Code: '' @ py_format rt (postcode g)] else [])
                    @ [''   Coordinates: '' @ float_str rt (latitude loc) @ '', ''
                         @ float_str rt (longitude loc)])))"

fun site_blocks :: "'f py_runtime \<Rightarrow> bool \<Rightarrow> 'f sites \<Rightarrow> py_exception + string list" where
  "site_blocks rt branch [] = Inr []"
| "site_blocks rt branch ((k, key_obj, s) # rest) =
     (case site_location_lines rt branch s of
        Inl e \<Rightarrow> Inl e
      | Inr ls \<Rightarrow>
          (case site_blocks rt branch rest of
             Inl e \<Rightarrow> Inl e
           | Inr below \<Rightarrow>
               Inr ([newline @ ''Site '' @ py_format rt key_obj @ '' (''
                       @ nat_str (length (devices s)) @ '' devices)'']
                    @ ls @ concat (map (device_lines rt branch) (devices s)) @ below)))"

definition print_all :: "string list \<Rightarrow> 'f world \<Rightarrow> 'f world" where
  "print_all ls w = w\<lparr>stdout := stdout w @ ls\<rparr>"

definition print_geocoded_site_report ::
  "'f py_runtime \<Rightarrow> 'f sites \<Rightarrow> 'f world \<Rightarrow> py_exception + 'f world" where
  "print_geocoded_site_report rt ss w =
     (let control_sites = filter (\<lambda>(k, key_obj, s). site_type s = ''control_plane'') ss;
          branch_sites = filter (\<lambda>(k, key_obj, s). site_type s = ''branch'') ss;
          head = [newline @ replicate 80 CHR ''='', ''CISCO SD-WAN SITES WITH GEOCODED LOCATIONS'',
                  replicate 80 CHR ''='',
                  newline @ ''Summary: '' @ nat_str (length ss) @ '' sites discovered'',
                  ''   Control Plane Sites: '' @ nat_str (length control_sites),
                  ''   Branch Sites: '' @ nat_str (length branch_sites)]
      in case site_blocks rt False control_sites of
           Inl e \<Rightarrow> Inl e
         | Inr cs \<Rightarrow>
             (case site_blocks rt True branch_sites of
                Inl e \<Rightarrow> Inl e
              | Inr bs \<Rightarrow>
                  Inr (print_all
                         (head
                          @ (if control_sites \<noteq> []
                             then [newline @ ''CONTROL PLANE SITES'', replicate 40 CHR ''-''] @ cs
                             else [])
                          @ (if branch_sites \<noteq> []
                             then [newline @ ''BRANCH SITES'', replicate 40 CHR ''-''] @ bs
                             else []))
                         w)))"

text \<open>
  \<open>generate_location_summary\<close> (lines 298-322). A group is an entry of one of the two
  \<open>defaultdict(list)\<close>: its label as the dictionary compares it, the label object that
  was inserted, and the site texts appended so far.
\<close>

type_synonym 'f groups = "('f py_key \<times> 'f json \<times> string list) list"

definition group_append ::
  "'f py_runtime \<Rightarrow> 'f groups \<Rightarrow> 'f json \<Rightarrow> string \<Rightarrow> py_exception + 'f groups" where
  "group_append rt gs label txt =
     (case dict_key rt label of
        Inl e \<Rightarrow> Inl e
      | Inr k \<Rightarrow>
          Inr (AList.update k
                 (case map_of gs k of
                    Some (obj, txts) \<Rightarrow> (obj, txts @ [txt])
                  | None \<Rightarrow> (label, [txt]))
                 gs))"

fun summary_groups ::
  "'f py_runtime \<Rightarrow> 'f groups \<times> 'f groups \<Rightarrow> 'f sites \<Rightarrow> py_exception + 'f groups \<times> 'f groups" where
  "summary_groups rt cc [] = Inr cc"
| "summary_groups rt cc ((k, site_id, s) # rest) =
     (case geocoded_location s of
        None \<Rightarrow> summary_groups rt cc rest
      | Some g \<Rightarrow>
          (case group_append rt (fst cc) (country g) (''Site '' @ py_format rt site_id) of
             Inl e \<Rightarrow> Inl e
           | Inr countries \<Rightarrow>
               (case group_append rt (snd cc)
                       (JStr (py_format rt (city g) @ '', '' @ py_format rt (state g) @ '', ''
                                @ py_format rt (country g)))
                       (''Site '' @ py_format rt site_id) of
                  Inl e \<Rightarrow> Inl e
                | Inr cities \<Rightarrow> summary_groups rt (countries, cities) rest)))"

text \<open>
  \<open>a < b\<close> on two labels: strings by code points, numbers by value, anything else is a
  \<open>TypeError\<close>.
\<close>

fun py_less ::
  "'f py_runtime \<Rightarrow> 'f py_key \<times> 'f json \<Rightarrow> 'f py_key \<times> 'f json \<Rightarrow> py_exception + bool" where
  "py_less rt (KeyStr a, x) (KeyStr b, y) = Inr (a < b)"
| "py_less rt (KeyInt a, x) (KeyInt b, y) = Inr (a < b)"
| "py_less rt (KeyInt a, x) (KeyFloat b, y) = Inr (float_key_less rt (KeyInt a) (KeyFloat b))"
| "py_less rt (KeyFloat a, x) (KeyInt b, y) = Inr (float_key_less rt (KeyFloat a) (KeyInt b))"
| "py_less rt (KeyFloat a, x) (KeyFloat b, y) = Inr (float_key_less rt (KeyFloat a) (KeyFloat b))"
| "py_less rt (a, x) (b, y) =
     Inl (type_error (quote @ ''<'' @ quote @ '' not supported between instances of ''
            @ quote @ type_name x @ quote @ '' and '' @ quote @ type_name y @ quote))"

text \<open>
  \<open>sorted(groups.items())\<close>. The labels of a dictionary are pairwise different, so the
  order of the items is the order of their labels. The sort is written as an insertion
  sort: CPython's makes its comparisons in another order, returns the same list whenever
  \<open><\<close> is a strict total order on the labels, as it is on strings, and raises a
  \<open>TypeError\<close> when two labels cannot be compared.
\<close>

fun insort_item ::
  "'f py_runtime \<Rightarrow> 'f py_key \<times> 'f json \<times> string list \<Rightarrow> 'f groups \<Rightarrow> py_exception + 'f groups" where
  "insort_item rt x [] = Inr [x]"
| "insort_item rt x (y # ys) =
     (case py_less rt (fst y, fst (snd y)) (fst x, fst (snd x)) of
        Inl e \<Rightarrow> Inl e
      | Inr lt \<Rightarrow>
          if lt
          then (case insort_item rt x ys of Inl e \<Rightarrow> Inl e | Inr zs \<Rightarrow> Inr (y # zs))
          else Inr (x # y # ys))"

fun py_sorted :: "'f py_runtime \<Rightarrow> 'f groups \<Rightarrow> py_exception + 'f groups" where
  "py_sorted rt [] = Inr []"
| "py_sorted rt (x # xs) =
     (case py_sorted rt xs of Inl e \<Rightarrow> Inl e | Inr ys \<Rightarrow> insort_item rt x ys)"

definition group_line :: "'f py_runtime \<Rightarrow> 'f py_key \<times> 'f json \<times> string list \<Rightarrow> string" where
  "group_line rt g =
     ''   '' @ py_format rt (fst (snd g)) @ '': '' @ intercalate '', '' (snd (snd g))"

definition summary_lines :: "'f py_runtime \<Rightarrow> 'f sites \<Rightarrow> py_exception + string list" where
  "summary_lines rt ss =
     (case summary_groups rt ([], []) ss of
        Inl e \<Rightarrow> Inl e
      | Inr (countries, cities) \<Rightarrow>
          (case py_sorted rt countries of
             Inl e \<Rightarrow> Inl e
           | Inr sorted_countries \<Rightarrow>
               (case py_sorted rt cities of
                  Inl e \<Rightarrow> Inl e
                | Inr sorted_cities \<Rightarrow>
                    Inr ([newline @ ''Countries ('' @ nat_str (length countries) @ ''):'']
                         @ map (group_line rt) sorted_countries
                         @ [newline @ ''Cities ('' @ nat_str (length cities) @ ''):'']
                         @ map (group_line rt) sorted_cities))))"

definition generate_location_summary ::
  "'f py_runtime \<Rightarrow> 'f sites \<Rightarrow> 'f world \<Rightarrow> py_exception + 'f world" where
  "generate_location_summary rt ss w =
     (case summary_lines rt ss of
        Inl e \<Rightarrow> Inl e
      | Inr ls \<Rightarrow>
          Inr (print_all ([newline @ ''LOCATION SUMMARY'', replicate 40 CHR ''-''] @ ls) w))"


section \<open>The program\<close>

text \<open>The constant text of \<open>print_api_usage_guide\<close> (lines 331-378), line by line.\<close>

definition usage_guide :: "string list" where
  "usage_guide =
     [''PROBLEM: No single API endpoint provides Network Hierarchy site list'',
      [],
      ''SOLUTION: Multi-step API approach with geocoding enhancement'',
      [],
      ''REQUIRED API CALLS:'',
      [],
      ''1. PRIMARY: GET /dataservice/device'',
      ''   - Returns all devices with site-id, location, and device details'',
      ''   - This is your main data source for site hierarchy'',
      ''   - Group devices by site-id to create site structure'',
      [],
      ''2. SUPPLEMENTARY: GET /dataservice/device/tloc  '',
      ''   - Provides network topology and connection information'',
      ''   - Useful for understanding site connectivity'',
      ''   - Links to devices via system-ip'',
      [],
      ''3. GEOCODING: Reverse geocode GPS coordinates to addresses'',
      ''   - OpenStreetMap Nominatim (free, no API key)'',
      ''   - Google Maps, HERE, MapBox (premium options)'',
      [],
      ''IMPLEMENTATION STEPS:'',
      [],
      ''Step 1: Authenticate and get device list'',
      ''Step 2: Parse device data and group by site-id'',
      ''Step 3: Extract location data (latitude/longitude)'',
      ''Step 4: Reverse geocode coordinates to city/address'',
      ''Step 5: Categorize sites (control plane vs branch)'',
      ''Step 6: Supplement with TLOC data for network topology'',
      ''Step 7: Build hierarchical site structure with location info'',
      [],
      ''KEY INSIGHTS:'',
      [],
      ''- Site hierarchy is implicit in the data, not explicit'',
      ''- site-id is the primary grouping mechanism'',
      ''- Location data comes from device GPS or site coordinates'',
      ''- Geocoding converts coordinates to human-readable addresses'',
      ''- Device types help categorize site purposes'',
      ''- Multiple API calls are required - no single endpoint solution'',
      [],
      ''LIMITATIONS:'',
      [],
      ''- No dedicated '' @ [CHR 0x22] @ ''Network Hierarchy'' @ [CHR 0x22] @ '' API endpoint'',
      ''- Site names must be inferred or manually mapped'',
      ''- Hierarchical relationships beyond site-id not available via API'',
      ''- Some site metadata may only be available in the UI'',
      ''- Geocoding adds external dependency and potential rate limits'']"

definition print_api_usage_guide :: "'f world \<Rightarrow> 'f world" where
  "print_api_usage_guide w =
     print_all
       [newline @ replicate 80 CHR ''='',
        ''API USAGE GUIDE - EXTRACTING SITE HIERARCHY WITH GEOCODING'',
        replicate 80 CHR ''='',
        concat (map (\<lambda>l. newline @ l) usage_guide) @ newline]
       w"

text \<open>
  How the process ends: \<open>main\<close> returns, \<open>sys.exit\<close> is called, or an exception nobody
  catches ends it with a traceback. A run that returns may have written the export.
\<close>

datatype 'f outcome =
    Returned "'f world" "(string \<times> 'f sites) option"
  | SysExit int "'f world"
  | Uncaught py_exception

fun exit_code :: "'f outcome \<Rightarrow> int" where
  "exit_code (Returned w saved) = 0"
| "exit_code (SysExit n w) = n"
| "exit_code (Uncaught e) = 1"

fun outcome_stdout :: "'f outcome \<Rightarrow> string list" where
  "outcome_stdout (Returned w saved) = stdout w"
| "outcome_stdout (SysExit n w) = stdout w"
| "outcome_stdout (Uncaught e) = []"

definition BASE_URL :: string where
  "BASE_URL = ''https://sandbox-sdwan-2.cisco.com''"

definition USERNAME :: string where
  "USERNAME = ''devnetuser''"

definition PASSWORD :: string where
  "PASSWORD = ''RG!_Yw919_83''"

definition output_file :: string where
  "output_file = ''/Users/stuartclark/Downloads/sdwan_sites_geocoded_clean.json''"

text \<open>
  \<open>main\<close> (lines 382-423). \<open>open_file\<close> says whether opening the export for writing
  raises.
\<close>

definition main ::
  "'f py_runtime \<Rightarrow> 'f network \<Rightarrow> (string \<Rightarrow> py_exception option) \<Rightarrow> 'f world \<Rightarrow> 'f outcome" where
  "main rt net open_file w =
     (let w1 = print_all [''Cisco SD-WAN Site Hierarchy Extraction with Geocoding'',
                          ''Target: '' @ BASE_URL, newline @ ''Authenticating...''] w
      in case authenticate net (SDWANSiteExtractorWithGeo BASE_URL USERNAME PASSWORD, w1) of
           Inl e \<Rightarrow> Uncaught e
         | Inr (ok, extractor, w2) \<Rightarrow>
             if \<not> ok then SysExit 1 (print ''ERROR: Authentication failed'' w2)
             else
               (case extract_sites_with_geocoding rt net
                       (extractor,
                        print_all [''SUCCESS: Authentication successful'',
                                   newline @ ''Extracting sites with location mapping...''] w2) of
                  Inl e \<Rightarrow> Uncaught e
                | Inr (result, extractor', w3) \<Rightarrow>
                    (case result of
                       Some ss \<Rightarrow>
                         if ss \<noteq> []
                         then (case print_geocoded_site_report rt ss w3 of
                                 Inl e \<Rightarrow> Uncaught e
                               | Inr w4 \<Rightarrow>
                                   (case generate_location_summary rt ss w4 of
                                      Inl e \<Rightarrow> Uncaught e
                                    | Inr w5 \<Rightarrow>
                                        (case open_file output_file of
                                           Some e \<Rightarrow> Uncaught e
                                         | None \<Rightarrow>
                                             Returned
                                               (print (newline @ ''CONCLUSION: Site locations successfully mapped to cities and addresses!'')
                                                  (print_api_usage_guide
                                                     (print (newline @ ''Sites with geocoded locations saved to: '' @ output_file) w5)))
                                               (Some (output_file, ss)))))
                         else Returned (print ''ERROR: Failed to extract site hierarchy'' w3) None
                     | None \<Rightarrow>
                         Returned (print ''ERROR: Failed to extract site hierarchy'' w3) None)))"


section \<open>Sequences of lookups, and values to evaluate examples on\<close>

text \<open>
  Lookups made one after the other on the same service. Each is made in a world of its
  own, since the rest of the program prints and sends requests in between.
\<close>

fun geocode_calls ::
  "'f py_runtime \<Rightarrow> 'f network \<Rightarrow> 'f geocode_service \<Rightarrow> ('f world \<times> 'f \<times> 'f) list
     \<Rightarrow> 'f geolocation list \<times> 'f geocode_service" where
  "geocode_calls rt net svc [] = ([], svc)"
| "geocode_calls rt net svc ((w, lat, lon) # calls) =
     (let (g, svc1, w1) = reverse_geocode_nominatim rt net (svc, w) lat lon;
          (gs, svc2) = geocode_calls rt net svc1 calls
      in (g # gs, svc2))"

text \<open>
  A small runtime for the examples: the floats with an integral value of less than
  sixteen digits, each represented by that value. \<open>float(s)\<close> is given for the strings it
  is applied to in the examples: an optional minus sign and decimal digits, and strings
  that are no number at all.
\<close>

fun digits_value :: "nat \<Rightarrow> string \<Rightarrow> nat option" where
  "digits_value acc [] = Some acc"
| "digits_value acc (c # cs) =
     (if (48::nat) \<le> of_char c \<and> of_char c \<le> (57::nat)
      then digits_value (10 * acc + (of_char c - 48)) cs
      else None)"

definition sample_float_of_str :: "string \<Rightarrow> py_exception + int" where
  "sample_float_of_str s =
     (let negative = (s \<noteq> [] \<and> hd s = CHR ''-'');
          body = (if negative then tl s else s)
      in case (if body = [] then None else digits_value 0 body) of
           Some n \<Rightarrow> Inr (if negative then - int n else int n)
         | None \<Rightarrow>
             Inl (PyExc ''ValueError'' (''could not convert string to float: '' @ quote @ s @ quote)))"

fun sample_key_value :: "int py_key \<Rightarrow> int" where
  "sample_key_value (KeyInt i) = i"
| "sample_key_value (KeyFloat f) = f"
| "sample_key_value k = 0"

definition sample_runtime :: "int py_runtime" where
  "sample_runtime =
     \<lparr>float_of_str = sample_float_of_str,
      float_of_int = Inr,
      float_bool = (\<lambda>f. f \<noteq> 0),
      float_str = (\<lambda>f. int_str f @ ''.0''),
      float_as_int = Some,
      float_key_less = (\<lambda>a b. sample_key_value a < sample_key_value b),
      container_str = (\<lambda>v. case v of JList [] \<Rightarrow> ''[]'' | JObj [] \<Rightarrow> ''{}'' | _ \<Rightarrow> ''[...]''),
      str_upper = (\<lambda>s. s)\<rparr>"

definition world0 :: "int world" where
  "world0 = \<lparr>http_log = [], stdout = []\<rparr>"

definition answer :: "int \<Rightarrow> int json \<Rightarrow> py_exception + int http_response" where
  "answer status body = Inr \<lparr>status_code = status, resp_text = [], resp_json = Inr body\<rparr>"

definition san_francisco :: "int json" where
  "san_francisco =
     JObj [(''display_name'', JStr ''San Francisco, California, United States''),
           (''address'', JObj [(''city'', JStr ''San Francisco''), (''state'', JStr ''California''),
                               (''country'', JStr ''United States''), (''country_code'', JStr ''us''),
                               (''postcode'', JStr ''94103'')])]"

text \<open>Answers of the geocoding service: a city, a timeout, a page that is no JSON.\<close>

definition sf_net :: "int network" where
  "sf_net = (\<lambda>n request. answer 200 san_francisco)"

definition status_net :: "int \<Rightarrow> int network" where
  "status_net status = (\<lambda>n request. answer status JNull)"

definition timeout_net :: "int network" where
  "timeout_net = (\<lambda>n request. Inl (PyExc ''ReadTimeout'' ''Read timed out. (read timeout=10)''))"

definition html_net :: "int network" where
  "html_net =
     (\<lambda>n request. Inr \<lparr>status_code = 200, resp_text = ''<html></html>'',
                       resp_json = Inl (PyExc ''JSONDecodeError''
                                          ''Expecting value: line 1 column 1 (char 0)'')\<rparr>)"

definition sf_location :: "int geolocation" where
  "sf_location =
     \<lparr>display_name = JStr ''San Francisco, California, United States'',
      city = JStr ''San Francisco'', state = JStr ''California'',
      country = JStr ''United States'', country_code = JStr ''US'', postcode = JStr ''94103'',
      formatted_address = JStr ''San Francisco, California, United States''\<rparr>"

text \<open>Devices of site 100: two routers, the first with coordinates, and a controller.\<close>

definition r1 :: "int json" where
  "r1 = JObj [(''site-id'', JStr ''100''), (''host-name'', JStr ''r1''),
              (''device-type'', JStr ''vedge''), (''latitude'', JStr ''37''),
              (''longitude'', JStr ''-122'')]"

definition r2 :: "int json" where
  "r2 = JObj [(''site-id'', JStr ''100''), (''host-name'', JStr ''r2''),
              (''device-type'', JStr ''vedge'')]"

definition r3 :: "int json" where
  "r3 = JObj [(''site-id'', JStr ''100''), (''host-name'', JStr ''r3''),
              (''device-type'', JStr ''vedge''), (''latitude'', JStr ''51''),
              (''longitude'', JStr ''7'')]"

definition vm1 :: "int json" where
  "vm1 = JObj [(''site-id'', JStr ''100''), (''host-name'', JStr ''vm1''),
               (''device-type'', JStr ''vmanage'')]"

definition start :: "int aggregation" where
  "start = \<lparr>sites = [], geo = GeocodeService, out = world0\<rparr>"

text \<open>
  A device on the equator, one whose coordinates are the text \<open>N/A\<close>, and one without
  any entry.
\<close>

definition equator :: "int json" where
  "equator = JObj [(''site-id'', JStr ''200''), (''host-name'', JStr ''quito''),
                   (''device-type'', JStr ''vedge''), (''latitude'', JFloat 0),
                   (''longitude'', JStr ''-78'')]"




text \<open>
  Controllers: one that cannot be reached, and one that lets the program log in and
  answers the inventory request with status 500.
\<close>

definition unreachable_net :: "int network" where
  "unreachable_net =
     (\<lambda>n request. Inl (PyExc ''ConnectionError'' ''Max retries exceeded with url: /j_security_check''))"

definition no_inventory_net :: "int network" where
  "no_inventory_net =
     (\<lambda>n request.
        if req_url request = BASE_URL @ ''/dataservice/device''
        then Inr \<lparr>status_code = 500, resp_text = ''Internal Server Error'',
                  resp_json = Inl (PyExc ''JSONDecodeError''
                                     ''Expecting value: line 1 column 1 (char 0)'')\<rparr>
        else Inr \<lparr>status_code = 200, resp_text = ''TOKEN'', resp_json = Inr (JObj [])\<rparr>)"

definition bad_login_net :: "int network" where
  "bad_login_net =
     (\<lambda>n request. Inr \<lparr>status_code = 403, resp_text = ''Forbidden'', resp_json = Inr JNull\<rparr>)"

definition extractor0 :: "int extractor" where
  "extractor0 = SDWANSiteExtractorWithGeo BASE_URL USERNAME PASSWORD"

text \<open>A file system on which the export can be written.\<close>

definition writable :: "string \<Rightarrow> py_exception option" where
  "writable = (\<lambda>path. None)"


section \<open>Notions used to state the properties of the aggregation\<close>

text \<open>
  The key under which a device is filed (line 163 and the hashing of \<open>sites[site_id]\<close>),
  whether it has the device type of a control-plane role (line 201), whether it passes
  the test of line 178, and the site filed under a key.
\<close>

definition device_site :: "'f py_runtime \<Rightarrow> 'f json \<Rightarrow> 'f py_key option" where
  "device_site rt device =
     (case device of
        JObj d \<Rightarrow>
          (case dict_key rt (dict_get d ''site-id'' (JStr ''unknown'')) of
             Inl e \<Rightarrow> None
           | Inr k \<Rightarrow> Some k)
      | _ \<Rightarrow> None)"

definition is_control :: "'f json \<Rightarrow> bool" where
  "is_control device =
     (case device of
        JObj d \<Rightarrow>
          dict_get d ''device-type'' JNull \<in> set [JStr ''vmanage'', JStr ''vsmart'', JStr ''vbond'']
      | _ \<Rightarrow> False)"


definition site_of :: "'f sites \<Rightarrow> 'f py_key \<Rightarrow> 'f site option" where
  "site_of ss k = map_option snd (map_of ss k)"

text \<open>The line printed for a device before it is processed (line 165).\<close>

definition progress_line :: "'f py_runtime \<Rightarrow> nat \<Rightarrow> nat \<Rightarrow> (string \<times> 'f json) list \<Rightarrow> string" where
  "progress_line rt n i d =
     ''Processing device '' @ nat_str (i + 1) @ ''/'' @ nat_str n @ '': ''
       @ py_format rt (dict_get d ''host-name'' (JStr ''Unknown''))"


text \<open>A device dictionary without its two coordinate entries.\<close>

definition without_coordinates :: "(string \<times> 'f json) list \<Rightarrow> (string \<times> 'f json) list" where
  "without_coordinates d = AList.delete ''latitude'' (AList.delete ''longitude'' d)"



section \<open>The location summary, as a specification\<close>

text \<open>
  The summary as claim C9 is amended below, written from the words of the claim and not
  from the code: the sites that have a geocoded location, in the order of the mapping;
  their labels; and the lines of the groups of a list of labelled texts, one line per
  different label in lexicographic order, holding the texts of that label in the order
  of the list.
\<close>

definition located :: "'f sites \<Rightarrow> ('f json \<times> 'f geolocation) list" where
  "located ss =
     concat (map (\<lambda>(k, site_id, s).
                    case geocoded_location s of None \<Rightarrow> [] | Some g \<Rightarrow> [(site_id, g)]) ss)"

definition site_text :: "'f py_runtime \<Rightarrow> 'f json \<Rightarrow> string" where
  "site_text rt site_id = ''Site '' @ py_format rt site_id"

definition country_label :: "'f py_runtime \<Rightarrow> 'f geolocation \<Rightarrow> string" where
  "country_label rt g = py_format rt (country g)"

definition city_label :: "'f py_runtime \<Rightarrow> 'f geolocation \<Rightarrow> string" where
  "city_label rt g =
     py_format rt (city g) @ '', '' @ py_format rt (state g) @ '', '' @ py_format rt (country g)"

definition members :: "(string \<times> string) list \<Rightarrow> string \<Rightarrow> string list" where
  "members entries label = map snd (filter (\<lambda>e. fst e = label) entries)"

definition group_lines :: "(string \<times> string) list \<Rightarrow> string list" where
  "group_lines entries =
     map (\<lambda>label. ''   '' @ label @ '': '' @ intercalate '', '' (members entries label))
       (sort (remdups (map fst entries)))"

definition country_entries :: "'f py_runtime \<Rightarrow> 'f sites \<Rightarrow> (string \<times> string) list" where
  "country_entries rt ss = map (\<lambda>(site_id, g). (country_label rt g, site_text rt site_id)) (located ss)"

definition city_entries :: "'f py_runtime \<Rightarrow> 'f sites \<Rightarrow> (string \<times> string) list" where
  "city_entries rt ss = map (\<lambda>(site_id, g). (city_label rt g, site_text rt site_id)) (located ss)"

definition summary_spec :: "'f py_runtime \<Rightarrow> 'f sites \<Rightarrow> string list" where
  "summary_spec rt ss =
     [newline @ ''Countries ('' @ nat_str (length (remdups (map fst (country_entries rt ss)))) @ ''):'']
     @ group_lines (country_entries rt ss)
     @ [newline @ ''Cities ('' @ nat_str (length (remdups (map fst (city_entries rt ss)))) @ ''):'']
     @ group_lines (city_entries rt ss)"

text \<open>The mappings the amended claim is about: every resolved country is a string.\<close>

definition string_countries :: "'f sites \<Rightarrow> bool" where
  "string_countries ss =
     list_all (\<lambda>(site_id, g). case country g of JStr c \<Rightarrow> True | _ \<Rightarrow> False) (located ss)"

text \<open>
  For the proof: what \<open>group_append\<close> does for a label that is a string, the label of a
  group, and the groups that hold a list of labelled texts.
\<close>

definition add_entry :: "string \<times> string \<Rightarrow> 'f groups \<Rightarrow> 'f groups" where
  "add_entry e gs =
     AList.update (KeyStr (fst e))
       (case map_of gs (KeyStr (fst e)) of
          Some (obj, txts) \<Rightarrow> (obj, txts @ [snd e])
        | None \<Rightarrow> (JStr (fst e), [snd e]))
       gs"

definition label_of :: "'f py_key \<times> 'f json \<times> string list \<Rightarrow> string" where
  "label_of x = (case fst x of KeyStr c \<Rightarrow> c | _ \<Rightarrow> [])"

definition group_of :: "(string \<times> string) list \<Rightarrow> string \<Rightarrow> 'f py_key \<times> 'f json \<times> string list" where
  "group_of entries c = (KeyStr c, JStr c, members entries c)"

definition holds :: "'f groups \<Rightarrow> (string \<times> string) list \<Rightarrow> bool" where
  "holds gs entries \<longleftrightarrow>
     distinct (map fst gs)
     \<and> (\<forall>k. map_of gs k =
            (case k of
               KeyStr c \<Rightarrow> if c \<in> fst ` set entries
                           then Some (JStr c, members entries c) else None
             | _ \<Rightarrow> None))"

text \<open>
  Two devices of two sites at the same place, the site 200 first in the inventory, and a
  mapping of two such sites as the aggregation builds it.
\<close>

definition s200 :: "int json" where
  "s200 = JObj [(''site-id'', JStr ''200''), (''host-name'', JStr ''west2''),
                (''device-type'', JStr ''vedge''), (''latitude'', JStr ''37''),
                (''longitude'', JStr ''-122'')]"

definition s100 :: "int json" where
  "s100 = JObj [(''site-id'', JStr ''100''), (''host-name'', JStr ''west1''),
                (''device-type'', JStr ''vedge''), (''latitude'', JStr ''37''),
                (''longitude'', JStr ''-122'')]"

definition sf_site :: "string \<Rightarrow> int site" where
  "sf_site host =
     \<lparr>devices = [\<lparr>hostname = JStr host, system_ip = JStr ''N/A'', device_type = JStr ''vedge'',
                   device_model = JStr ''N/A'', reachability = JStr ''N/A'', version = JStr ''N/A'',
                   platform = JStr ''N/A'',
                   dev_location = Some \<lparr>latitude = 37, longitude = - 122,
                                          is_device_gps = JBool False, geocoded = sf_location\<rparr>,
                   tloc_info = None\<rparr>],
      location = Some \<lparr>latitude = 37, longitude = - 122, is_device_gps = JBool False,
                       geocoded = sf_location\<rparr>,
      geocoded_location = Some sf_location, site_type = ''branch''\<rparr>"

definition two_sites :: "int sites" where
  "two_sites = [(KeyStr ''200'', JStr ''200'', sf_site ''west2''),
                (KeyStr ''100'', JStr ''100'', sf_site ''west1'')]"

text \<open>A third site, in another country, first in the mapping.\<close>

definition leipzig_location :: "int geolocation" where
  "leipzig_location =
     \<lparr>display_name = JStr ''Leipzig, Sachsen, Deutschland'',
      city = JStr ''Leipzig'', state = JStr ''Sachsen'',
      country = JStr ''Deutschland'', country_code = JStr ''DE'', postcode = JStr ''04109'',
      formatted_address = JStr ''Leipzig, Sachsen, Deutschland''\<rparr>"

definition three_sites :: "int sites" where
  "three_sites =
     (KeyStr ''300'', JStr ''300'', (sf_site ''east3'')\<lparr>geocoded_location := Some leipzig_location\<rparr>)
     # (KeyStr ''400'', JStr ''400'',
        (sf_site ''north4'')\<lparr>location := None, geocoded_location := None\<rparr>)
     # two_sites"


section \<open>Properties of the geocoding service\<close>

lemma rg_hit:
  "cache svc (cache_key rt lat lon) = Some g \<Longrightarrow>
   reverse_geocode_nominatim rt net (svc, w) lat lon = (g, svc, w)"
  by (simp add: reverse_geocode_nominatim_def)

lemma rg_miss_ok:
  assumes "cache svc (cache_key rt lat lon) = None"
      and "geocode_lookup rt (fst (http_send net w (geocode_request lat lon))) = Inr (Some g)"
  shows "reverse_geocode_nominatim rt net (svc, w) lat lon =
           (g, svc\<lparr>cache := (cache svc)(cache_key rt lat lon \<mapsto> g)\<rparr>,
            snd (http_send net w (geocode_request lat lon)))"
  using assms by (cases "http_send net w (geocode_request lat lon)") (simp add: reverse_geocode_nominatim_def)

lemma rg_miss_none:
  assumes "cache svc (cache_key rt lat lon) = None"
      and "geocode_lookup rt (fst (http_send net w (geocode_request lat lon))) = Inr None"
  shows "reverse_geocode_nominatim rt net (svc, w) lat lon =
           (fallback_location rt lat lon, svc, snd (http_send net w (geocode_request lat lon)))"
  using assms by (cases "http_send net w (geocode_request lat lon)") (simp add: reverse_geocode_nominatim_def)

lemma rg_miss_exc:
  assumes "cache svc (cache_key rt lat lon) = None"
      and "geocode_lookup rt (fst (http_send net w (geocode_request lat lon))) = Inl e"
  shows "reverse_geocode_nominatim rt net (svc, w) lat lon =
           (fallback_location rt lat lon, svc,
            print (''WARNING: Geocoding failed for '' @ float_str rt lat @ '','' @ float_str rt lon
                     @ '': '' @ exc_str e) (snd (http_send net w (geocode_request lat lon))))"
  using assms by (cases "http_send net w (geocode_request lat lon)") (simp add: reverse_geocode_nominatim_def)

lemma rg_miss_log:
  assumes "cache svc (cache_key rt lat lon) = None"
  shows "http_log (snd (snd (reverse_geocode_nominatim rt net (svc, w) lat lon))) =
           http_log w @ [geocode_request lat lon]"
  using assms
  by (auto simp: reverse_geocode_nominatim_def http_send_def print_def
           split: sum.splits option.splits)

lemma rg_cache_mono:
  "cache svc k = Some v \<Longrightarrow>
   cache (fst (snd (reverse_geocode_nominatim rt net (svc, w) lat lon))) k = Some v"
  by (auto simp: reverse_geocode_nominatim_def split: option.splits prod.splits sum.splits)

lemma calls_cache_mono:
  "cache svc k = Some v \<Longrightarrow> cache (snd (geocode_calls rt net svc calls)) k = Some v"
proof (induction calls arbitrary: svc)
  case Nil
  then show ?case by simp
next
  case (Cons c calls)
  obtain w lat lon where c: "c = (w, lat, lon)" by (cases c) auto
  from Cons.prems have "cache (fst (snd (reverse_geocode_nominatim rt net (svc, w) lat lon))) k = Some v"
    by (rule rg_cache_mono)
  from Cons.IH [OF this] show ?case
    by (auto simp: c split: prod.splits)
qed

text \<open>
  Claim C4. When a coordinate pair that is not in the cache is resolved with success, the
  result is the one built from the answer, and after any further lookups on the service a
  second call for the same pair returns that same result with the service and the world
  as they were, so without any request. Whatever entry the cache holds, it holds after the
  further lookups with the same value.
\<close>

theorem cache_hit_no_network:
  assumes miss: "cache svc (cache_key rt lat lon) = None"
      and ok: "geocode_lookup rt (fst (http_send net w (geocode_request lat lon))) = Inr (Some g)"
      and first: "reverse_geocode_nominatim rt net (svc, w) lat lon = (g1, svc1, w1)"
      and later: "geocode_calls rt net svc1 calls = (gs, svc2)"
  shows "g1 = g
       \<and> reverse_geocode_nominatim rt net (svc2, w2) lat lon = (g1, svc2, w2)
       \<and> (\<forall>k v. cache svc1 k = Some v \<longrightarrow> cache svc2 k = Some v)"
proof -
  from rg_miss_ok [OF miss ok] first
  have g1: "g1 = g" and svc1: "cache svc1 (cache_key rt lat lon) = Some g" by auto
  have mono: "\<And>k v. cache svc1 k = Some v \<Longrightarrow> cache svc2 k = Some v"
    using calls_cache_mono [of svc1 _ _ rt net calls] later by simp
  from mono [OF svc1] have "cache svc2 (cache_key rt lat lon) = Some g" .
  from rg_hit [OF this] g1 mono show ?thesis by blast
qed


theorem cache_hit_no_network_witness:
  "cache GeocodeService (cache_key sample_runtime 37 (- 122)) = None
   \<and> geocode_lookup sample_runtime (fst (http_send sf_net world0 (geocode_request 37 (- 122))))
       = Inr (Some sf_location)
   \<and> (let first = reverse_geocode_nominatim sample_runtime sf_net (GeocodeService, world0) 37 (- 122);
           svc2 = snd (geocode_calls sample_runtime sf_net (fst (snd first)) [(world0, 51, 0)])
       in fst first = sf_location
        \<and> reverse_geocode_nominatim sample_runtime sf_net (svc2, world0) 37 (- 122)
            = (sf_location, svc2, world0))"
proof -
  let ?first = "reverse_geocode_nominatim sample_runtime sf_net (GeocodeService, world0) 37 (- 122)"
  let ?later = "geocode_calls sample_runtime sf_net (fst (snd ?first)) [(world0, 51, 0)]"
  have miss: "cache GeocodeService (cache_key sample_runtime 37 (- 122)) = None"
    by (simp add: GeocodeService_def)
  have ok: "geocode_lookup sample_runtime (fst (http_send sf_net world0 (geocode_request 37 (- 122))))
              = Inr (Some sf_location)"
    by code_simp
  have first: "?first = (fst ?first, fst (snd ?first), snd (snd ?first))" by simp
  have later: "?later = (fst ?later, snd ?later)" by simp
  from cache_hit_no_network [OF miss ok first later, of world0] miss ok
  show ?thesis by (simp add: Let_def)
qed

text \<open>
  Claim C3, on the code: the geocoding service answers with status 404. The lookup fails
  and returns the dictionary built from the coordinates, the service is left as it was,
  one request went out, and nothing is printed: the warning of line 64 is printed by the
  handler of exceptions only.
\<close>

theorem status_failure_is_silent:
  "reverse_geocode_nominatim sample_runtime (status_net 404) (GeocodeService, world0) 37 (- 122)
     = (fallback_location sample_runtime 37 (- 122), GeocodeService,
        \<lparr>http_log = [geocode_request 37 (- 122)], stdout = []\<rparr>)
   \<and> stdout (snd (snd (reverse_geocode_nominatim sample_runtime timeout_net
                          (GeocodeService, world0) 37 (- 122))))
       = [''WARNING: Geocoding failed for 37.0,-122.0: Read timed out. (read timeout=10)'']"
proof -
  have fmt: "float_str sample_runtime 37 = ''37.0''" "float_str sample_runtime (- 122) = ''-122.0''"
    by code_simp+
  show ?thesis
    by (simp add: reverse_geocode_nominatim_def GeocodeService_def world0_def http_send_def
          status_net_def timeout_net_def answer_def geocode_lookup_def print_def cache_key_def fmt)
qed

lemma lookup_transport: "geocode_lookup rt (Inl e) = Inl e"
  by (simp add: geocode_lookup_def)

lemma lookup_status: "status_code r \<noteq> 200 \<Longrightarrow> geocode_lookup rt (Inr r) = Inr None"
  by (simp add: geocode_lookup_def)

lemma lookup_parse:
  "status_code r = 200 \<Longrightarrow> resp_json r = Inl e \<Longrightarrow> geocode_lookup rt (Inr r) = Inl e"
  by (simp add: geocode_lookup_def)

lemma lookup_shape:
  "status_code r = 200 \<Longrightarrow> resp_json r = Inr data \<Longrightarrow> location_info_of rt data = Inl e
   \<Longrightarrow> geocode_lookup rt (Inr r) = Inl e"
  by (simp add: geocode_lookup_def)

text \<open>
  The failure paths of the lookup in general, for a coordinate pair that is not in the
  cache: when the request raises, when the body of an answer with status 200 cannot be
  decoded, or when the decoded body has not the shape of an answer, the lookup prints the
  warning with the pair and the text of the exception; when the status is not 200 it
  prints nothing. In all these cases it returns the dictionary built from the coordinates
  alone, whose \<open>formatted_address\<close> is \<open>"{lat}, {lon}"\<close> and whose \<open>city\<close> is
  \<open>"Unknown City"\<close>, and leaves the service as it was, so that a later call for the pair
  sends the request again. The lookup is a total function: no exception leaves it.
\<close>

lemma lookup_failure_paths:
  assumes miss: "cache svc (cache_key rt lat lon) = None"
  shows "(let answer = fst (http_send net w (geocode_request lat lon));
              w1 = w\<lparr>http_log := http_log w @ [geocode_request lat lon]\<rparr>;
              warned = (\<lambda>e. w1\<lparr>stdout := stdout w @
                           [''WARNING: Geocoding failed for '' @ float_str rt lat @ '',''
                              @ float_str rt lon @ '': '' @ exc_str e]\<rparr>);
              result = reverse_geocode_nominatim rt net (svc, w) lat lon
          in (\<forall>e. answer = Inl e \<longrightarrow> result = (fallback_location rt lat lon, svc, warned e))
           \<and> (\<forall>r e. answer = Inr r \<and> status_code r = 200 \<and> resp_json r = Inl e
                  \<longrightarrow> result = (fallback_location rt lat lon, svc, warned e))
           \<and> (\<forall>r data e. answer = Inr r \<and> status_code r = 200 \<and> resp_json r = Inr data
                    \<and> location_info_of rt data = Inl e
                  \<longrightarrow> result = (fallback_location rt lat lon, svc, warned e))
           \<and> (\<forall>r. answer = Inr r \<and> status_code r \<noteq> 200
                  \<longrightarrow> result = (fallback_location rt lat lon, svc, w1))
           \<and> ((\<forall>g. geocode_lookup rt answer \<noteq> Inr (Some g))
                \<longrightarrow> (\<forall>w2. http_log (snd (snd (reverse_geocode_nominatim rt net
                                                    (fst (snd result), w2) lat lon)))
                           = http_log w2 @ [geocode_request lat lon])))
       \<and> formatted_address (fallback_location rt lat lon)
           = JStr (float_str rt lat @ '', '' @ float_str rt lon)
       \<and> city (fallback_location rt lat lon) = JStr ''Unknown City''"
proof -
  let ?a = "fst (http_send net w (geocode_request lat lon))"
  have w1: "snd (http_send net w (geocode_request lat lon))
              = w\<lparr>http_log := http_log w @ [geocode_request lat lon]\<rparr>"
    by (simp add: http_send_def)
  have exc: "reverse_geocode_nominatim rt net (svc, w) lat lon =
               (fallback_location rt lat lon, svc,
                w\<lparr>http_log := http_log w @ [geocode_request lat lon],
                  stdout := stdout w @
                    [''WARNING: Geocoding failed for '' @ float_str rt lat @ '',''
                       @ float_str rt lon @ '': '' @ exc_str e]\<rparr>)"
    if "geocode_lookup rt ?a = Inl e" for e
    using rg_miss_exc [OF miss that] by (simp add: w1 print_def)
  have none: "reverse_geocode_nominatim rt net (svc, w) lat lon =
               (fallback_location rt lat lon, svc,
                w\<lparr>http_log := http_log w @ [geocode_request lat lon]\<rparr>)"
    if "geocode_lookup rt ?a = Inr None"
    using rg_miss_none [OF miss that] by (simp add: w1)
  have retry: "http_log (snd (snd (reverse_geocode_nominatim rt net (svc, w2) lat lon)))
                 = http_log w2 @ [geocode_request lat lon]" for w2
    by (rule rg_miss_log [OF miss])
  have same: "fst (snd (reverse_geocode_nominatim rt net (svc, w) lat lon)) = svc"
    if "\<forall>g. geocode_lookup rt ?a \<noteq> Inr (Some g)"
  proof (cases "geocode_lookup rt ?a")
    case (Inl e)
    then show ?thesis by (simp add: exc)
  next
    case (Inr r)
    with that have "geocode_lookup rt ?a = Inr None" by (cases r) auto
    then show ?thesis by (simp add: none)
  qed
  show ?thesis
    unfolding Let_def
    by (intro conjI allI impI)
       (auto simp: exc none retry same lookup_transport lookup_status lookup_parse lookup_shape
                   fallback_location_def)
qed

lemma lookup_failure_paths_example:
  "reverse_geocode_nominatim sample_runtime timeout_net (GeocodeService, world0) 37 (- 122)
     = (fallback_location sample_runtime 37 (- 122), GeocodeService,
        \<lparr>http_log = [geocode_request 37 (- 122)],
         stdout = [''WARNING: Geocoding failed for 37.0,-122.0: Read timed out. (read timeout=10)'']\<rparr>)
   \<and> reverse_geocode_nominatim sample_runtime html_net (GeocodeService, world0) 37 (- 122)
     = (fallback_location sample_runtime 37 (- 122), GeocodeService,
        \<lparr>http_log = [geocode_request 37 (- 122)],
         stdout = [''WARNING: Geocoding failed for 37.0,-122.0: Expecting value: line 1 column 1 (char 0)'']\<rparr>)
   \<and> reverse_geocode_nominatim sample_runtime (status_net 404) (GeocodeService, world0) 37 (- 122)
     = (fallback_location sample_runtime 37 (- 122), GeocodeService,
        \<lparr>http_log = [geocode_request 37 (- 122)], stdout = []\<rparr>)
   \<and> formatted_address (fallback_location sample_runtime 37 (- 122)) = JStr ''37.0, -122.0''"
proof -
  have miss: "cache GeocodeService (cache_key sample_runtime 37 (- 122)) = None"
    by (simp add: GeocodeService_def)
  have fmt: "float_str sample_runtime 37 = ''37.0''" "float_str sample_runtime (- 122) = ''-122.0''"
    by code_simp+
  have a1: "fst (http_send timeout_net world0 (geocode_request 37 (- 122)))
              = Inl (PyExc ''ReadTimeout'' ''Read timed out. (read timeout=10)'')"
    by (simp add: http_send_def timeout_net_def)
  have a2: "fst (http_send html_net world0 (geocode_request 37 (- 122)))
              = Inr \<lparr>status_code = 200, resp_text = ''<html></html>'',
                     resp_json = Inl (PyExc ''JSONDecodeError''
                                        ''Expecting value: line 1 column 1 (char 0)'')\<rparr>"
    by (simp add: http_send_def html_net_def)
  have a3: "fst (http_send (status_net 404) world0 (geocode_request 37 (- 122)))
              = Inr \<lparr>status_code = 404, resp_text = [], resp_json = Inr JNull\<rparr>"
    by (simp add: http_send_def status_net_def answer_def)
  have c1: "reverse_geocode_nominatim sample_runtime timeout_net (GeocodeService, world0) 37 (- 122)
     = (fallback_location sample_runtime 37 (- 122), GeocodeService,
        world0\<lparr>http_log := http_log world0 @ [geocode_request 37 (- 122)],
               stdout := stdout world0 @ [''WARNING: Geocoding failed for '' @ ''37.0'' @ '',''
                                            @ ''-122.0'' @ '': '' @ ''Read timed out. (read timeout=10)'']\<rparr>)"
    using lookup_failure_paths [OF miss, of timeout_net world0] by (simp add: Let_def a1 fmt)
  have c2: "reverse_geocode_nominatim sample_runtime html_net (GeocodeService, world0) 37 (- 122)
     = (fallback_location sample_runtime 37 (- 122), GeocodeService,
        world0\<lparr>http_log := http_log world0 @ [geocode_request 37 (- 122)],
               stdout := stdout world0 @ [''WARNING: Geocoding failed for '' @ ''37.0'' @ '',''
                                            @ ''-122.0'' @ '': '' @ ''Expecting value: line 1 column 1 (char 0)'']\<rparr>)"
    using lookup_failure_paths [OF miss, of html_net world0] by (simp add: Let_def a2 fmt)
  have c3: "reverse_geocode_nominatim sample_runtime (status_net 404) (GeocodeService, world0) 37 (- 122)
     = (fallback_location sample_runtime 37 (- 122), GeocodeService,
        world0\<lparr>http_log := http_log world0 @ [geocode_request 37 (- 122)]\<rparr>)"
    using lookup_failure_paths [OF miss, of "status_net 404" world0] by (simp add: Let_def a3)
  have c4: "formatted_address (fallback_location sample_runtime 37 (- 122)) = JStr ''37.0, -122.0''"
    using lookup_failure_paths [OF miss, of timeout_net world0] by (simp add: Let_def fmt)
  show ?thesis
    unfolding c1 c2 c3 c4 by (simp add: world0_def)
qed















section \<open>Properties of the aggregation\<close>

lemma attach_devices_locations:
  "attach_devices rt idx ds = Inr ds' \<Longrightarrow> map dev_location ds' = map dev_location ds"
proof (induction ds arbitrary: ds')
  case Nil
  then show ?case by simp
next
  case (Cons dev ds)
  then show ?case
    by (auto split: sum.splits option.splits)
qed

lemma attach_sites_keeps:
  assumes "attach_sites rt idx ss = Inr ss'"
      and "site_of ss k = Some s"
  shows "\<exists>s'. site_of ss' k = Some s'
              \<and> location s' = location s \<and> geocoded_location s' = geocoded_location s
              \<and> site_type s' = site_type s
              \<and> map dev_location (devices s') = map dev_location (devices s)"
  using assms
proof (induction rt idx ss arbitrary: ss' rule: attach_sites.induct)
  case (1 rt idx)
  then show ?case by (simp add: site_of_def)
next
  case (2 rt idx k0 key_obj s0 rest)
  from "2.prems"(1) obtain ds rest' where
    ds: "attach_devices rt idx (devices s0) = Inr ds"
    and rest: "attach_sites rt idx rest = Inr rest'"
    and ss': "ss' = (k0, key_obj, s0\<lparr>devices := ds\<rparr>) # rest'"
    by (auto split: sum.splits)
  show ?case
  proof (cases "k = k0")
    case True
    with "2.prems"(2) have "s = s0" by (simp add: site_of_def)
    with True attach_devices_locations [OF ds] show ?thesis
      by (simp add: ss' site_of_def)
  next
    case False
    with "2.prems"(2) have "site_of rest k = Some s" by (simp add: site_of_def)
    from "2.IH" [OF ds rest this] False show ?thesis
      by (simp add: ss' site_of_def)
  qed
qed

lemma process_device_step:
  assumes "process_device rt net n i st device = Inr st'"
  shows "\<exists>d loc k.
    device = JObj d
    \<and> locate rt net (geo st, print (progress_line rt n i d) (out st)) d = Inr (loc, geo st', out st')
    \<and> dict_key rt (dict_get d ''site-id'' (JStr ''unknown'')) = Inr k
    \<and> (\<forall>k'. site_of (sites st') k' =
        (if k' = k
         then Some (site_after (case site_of (sites st) k of Some s \<Rightarrow> s | None \<Rightarrow> new_site) loc
                      (dict_get d ''device-type'' JNull) (device_info_of d))
         else site_of (sites st) k'))"
proof -
  from assms obtain d where d: "device = JObj d"
    by (cases device) (simp_all add: process_device_def)
  let ?w = "print (progress_line rt n i d) (out st)"
  from assms d obtain loc svc w2 where l: "locate rt net (geo st, ?w) d = Inr (loc, svc, w2)"
    by (auto simp: process_device_def progress_line_def Let_def split: sum.splits)
  from assms d l obtain k where k: "dict_key rt (dict_get d ''site-id'' (JStr ''unknown'')) = Inr k"
    by (auto simp: process_device_def progress_line_def Let_def split: sum.splits)
  from assms d l k have st': "st' = \<lparr>sites = AList.update k
        (case map_of (sites st) k of
           Some (key_obj, s) \<Rightarrow>
             (key_obj, site_after s loc (dict_get d ''device-type'' JNull) (device_info_of d))
         | None \<Rightarrow>
             (dict_get d ''site-id'' (JStr ''unknown''),
              site_after new_site loc (dict_get d ''device-type'' JNull) (device_info_of d)))
        (sites st), geo = svc, out = w2\<rparr>"
    by (auto simp: process_device_def progress_line_def Let_def split: option.splits prod.splits)
  have "site_of (sites st') k' =
        (if k' = k
         then Some (site_after (case site_of (sites st) k of Some s \<Rightarrow> s | None \<Rightarrow> new_site) loc
                      (dict_get d ''device-type'' JNull) (device_info_of d))
         else site_of (sites st) k')" for k'
    by (auto simp: st' site_of_def update_conv' split: option.splits)
  with d l k st' show ?thesis by auto
qed

lemma process_devices_append:
  "process_devices rt net n i st (xs @ ys) =
     (case process_devices rt net n i st xs of
        Inl e \<Rightarrow> Inl e
      | Inr st1 \<Rightarrow> process_devices rt net n (i + length xs) st1 ys)"
  by (induction xs arbitrary: i st) (auto split: sum.splits)

lemma site_type_after:
  "site_type (site_after s loc dtype info) = classify dtype (site_type s)"
  by (simp add: site_after_def Let_def)

lemma classify_control: "classify dtype ''control_plane'' = ''control_plane''"
  by (simp add: classify_def)

lemma step_control:
  assumes "process_device rt net n i st device = Inr st'"
      and "device_site rt device = Some k" and "is_control device"
  shows "\<exists>s. site_of (sites st') k = Some s \<and> site_type s = ''control_plane''"
proof -
  from process_device_step [OF assms(1)] obtain d loc k0 where d: "device = JObj d"
    and k0: "dict_key rt (dict_get d ''site-id'' (JStr ''unknown'')) = Inr k0"
    and upd: "\<And>k'. site_of (sites st') k' =
        (if k' = k0
         then Some (site_after (case site_of (sites st) k0 of Some s \<Rightarrow> s | None \<Rightarrow> new_site) loc
                      (dict_get d ''device-type'' JNull) (device_info_of d))
         else site_of (sites st) k')"
    by blast
  from assms(2) d k0 have "k0 = k" by (simp add: device_site_def)
  moreover from assms(3) d have "classify (dict_get d ''device-type'' JNull) t = ''control_plane''" for t
    by (simp add: is_control_def classify_def)
  ultimately show ?thesis by (simp add: upd site_type_after)
qed

lemma step_keeps_control:
  assumes "process_device rt net n i st device = Inr st'"
      and "site_of (sites st) k = Some s" and "site_type s = ''control_plane''"
  shows "\<exists>s'. site_of (sites st') k = Some s' \<and> site_type s' = ''control_plane''"
proof -
  from process_device_step [OF assms(1)] obtain d loc k0 where
    upd: "\<And>k'. site_of (sites st') k' =
        (if k' = k0
         then Some (site_after (case site_of (sites st) k0 of Some s \<Rightarrow> s | None \<Rightarrow> new_site) loc
                      (dict_get d ''device-type'' JNull) (device_info_of d))
         else site_of (sites st) k')"
    by blast
  show ?thesis
    using assms(2,3) by (auto simp: upd site_type_after classify_control)
qed

lemma run_keeps_control:
  assumes "process_devices rt net n i st ds = Inr st'"
      and "site_of (sites st) k = Some s" and "site_type s = ''control_plane''"
  shows "\<exists>s'. site_of (sites st') k = Some s' \<and> site_type s' = ''control_plane''"
  using assms
proof (induction ds arbitrary: i st s)
  case Nil
  then show ?case by simp
next
  case (Cons device ds)
  from Cons.prems(1) obtain st1 where
    one: "process_device rt net n i st device = Inr st1"
    and rest: "process_devices rt net n (Suc i) st1 ds = Inr st'"
    by (auto split: sum.splits)
  from step_keeps_control [OF one Cons.prems(2,3)] obtain s1 where
    "site_of (sites st1) k = Some s1" "site_type s1 = ''control_plane''" by blast
  from Cons.IH [OF rest this] show ?case .
qed

text \<open>
  Claim C1. Let a run of the device loop get through a list of devices, from any state.
  If one of the devices is filed under the key \<open>k\<close> and has the device type \<open>vmanage\<close>,
  \<open>vsmart\<close> or \<open>vbond\<close>, then the site under \<open>k\<close> has the type \<open>control_plane\<close> at the end,
  whatever devices came before it (they may have made the site a \<open>branch\<close>) and whatever
  devices came after it. The state after every later device is the end of such a run, on
  a shorter list. Attaching the TLOC data (lines 222-227) leaves the type as it is, so the
  same holds of the mapping that \<open>extract_sites_with_geocoding\<close> returns.
\<close>

theorem control_plane_sticky:
  assumes run: "process_devices rt net n i st (before @ device # after) = Inr st'"
      and site: "device_site rt device = Some k"
      and control: "is_control device"
  shows "(\<exists>s. site_of (sites st') k = Some s \<and> site_type s = ''control_plane'')
       \<and> (\<forall>idx ss. attach_sites rt idx (sites st') = Inr ss \<longrightarrow>
              (\<exists>s. site_of ss k = Some s \<and> site_type s = ''control_plane''))"
proof -
  from run obtain st1 st2 where
    "process_devices rt net n i st before = Inr st1"
    and one: "process_device rt net n (i + length before) st1 device = Inr st2"
    and rest: "process_devices rt net n (Suc (i + length before)) st2 after = Inr st'"
    by (auto simp: process_devices_append split: sum.splits)
  from step_control [OF one site control] obtain s2 where
    "site_of (sites st2) k = Some s2" "site_type s2 = ''control_plane''" by blast
  from run_keeps_control [OF rest this] obtain s where
    s: "site_of (sites st') k = Some s" "site_type s = ''control_plane''" by blast
  have "\<exists>s'. site_of ss k = Some s' \<and> site_type s' = ''control_plane''"
    if "attach_sites rt idx (sites st') = Inr ss" for idx ss
    using attach_sites_keeps [OF that s(1)] s(2) by auto
  with s show ?thesis by blast
qed

theorem control_plane_sticky_witness:
  "(case process_devices sample_runtime sf_net 4 0 start [r1, r2] of
      Inl e \<Rightarrow> False
    | Inr st \<Rightarrow> map_option site_type (site_of (sites st) (KeyStr ''100'')) = Some ''branch'')
   \<and> device_site sample_runtime vm1 = Some (KeyStr ''100'') \<and> is_control vm1
   \<and> (case process_devices sample_runtime sf_net 4 0 start ([r1, r2] @ vm1 # [r3]) of
         Inl e \<Rightarrow> False
       | Inr st \<Rightarrow> map_option site_type (site_of (sites st) (KeyStr ''100'')) = Some ''control_plane'')"
proof -
  have a: "case process_devices sample_runtime sf_net 4 0 start [r1, r2] of
      Inl e \<Rightarrow> False
    | Inr st \<Rightarrow> map_option site_type (site_of (sites st) (KeyStr ''100'')) = Some ''branch''"
    by code_simp
  have site: "device_site sample_runtime vm1 = Some (KeyStr ''100'')"
    by code_simp
  have control: "is_control vm1"
    by code_simp
  have "\<not> isl (process_devices sample_runtime sf_net 4 0 start ([r1, r2] @ vm1 # [r3]))"
    by code_simp
  then obtain st' where
    run: "process_devices sample_runtime sf_net 4 0 start ([r1, r2] @ vm1 # [r3]) = Inr st'"
    by (cases "process_devices sample_runtime sf_net 4 0 start ([r1, r2] @ vm1 # [r3])") auto
  from control_plane_sticky [OF run site control] a site control run
  show ?thesis by auto
qed


lemma location_after:
  "location (site_after s loc dtype info) = (if location s = None then loc else location s)"
  by (cases loc) (simp_all add: site_after_def Let_def)

lemma geocoded_location_after:
  "geocoded_location (site_after s loc dtype info) =
     (if loc \<noteq> None \<and> location s = None then map_option geocoded loc else geocoded_location s)"
  by (simp add: site_after_def Let_def)

lemma devices_after:
  "devices (site_after s loc dtype info) = devices s @ [info\<lparr>dev_location := loc\<rparr>]"
  by (simp add: site_after_def Let_def)

lemma new_site_fields:
  "location new_site = None" "geocoded_location new_site = None" "devices new_site = []"
  by (simp_all add: new_site_def)

lemma step_site:
  assumes "process_device rt net n i st device = Inr st'"
  shows "\<exists>k. device_site rt device = Some k"
  using process_device_step [OF assms] by (auto simp: device_site_def)











lemma dict_get_without:
  "key \<noteq> ''latitude'' \<Longrightarrow> key \<noteq> ''longitude'' \<Longrightarrow>
   dict_get (without_coordinates d) key dflt = dict_get d key dflt"
  by (simp add: dict_get_def without_coordinates_def delete_conv')

lemma without_has_no_coordinates: "\<not> has_coordinates rt (without_coordinates d)"
  by (simp add: has_coordinates_def dict_get_def without_coordinates_def delete_conv')

lemma device_info_without: "device_info_of (without_coordinates d) = device_info_of d"
  by (simp add: device_info_of_def dict_get_without)

lemma locate_without_coordinates:
  "\<not> has_coordinates rt d \<Longrightarrow> locate rt net gw d = Inr (None, gw)"
  by (simp add: locate_def)

text \<open>
  Claim C10. A device whose latitude or longitude is absent or falsy (\<open>None\<close>, \<open>False\<close>,
  the number 0, the float 0.0, the empty string, an empty list or dictionary) is processed
  exactly as the same device without the two entries: the loop returns the same state or
  raises the same exception. When it returns, no lookup was made and no request sent,
  the record appended to the site is the one of line 167-175 without a location, and the
  location and geocoded location of the site are what they were before (none, for a new
  site).
\<close>

theorem falsy_coordinates_ignored:
  assumes falsy: "\<not> py_truthy rt (dict_get d ''latitude'' JNull)
                  \<or> \<not> py_truthy rt (dict_get d ''longitude'' JNull)"
  shows "process_device rt net n i st (JObj d)
           = process_device rt net n i st (JObj (without_coordinates d))
       \<and> (\<forall>st'. process_device rt net n i st (JObj d) = Inr st' \<longrightarrow>
             geo st' = geo st
           \<and> http_log (out st') = http_log (out st)
           \<and> (\<exists>k s. device_site rt (JObj d) = Some k \<and> site_of (sites st') k = Some s
                  \<and> last (devices s) = device_info_of d
                  \<and> dev_location (last (devices s)) = None
                  \<and> location s = (case site_of (sites st) k of
                                     None \<Rightarrow> None | Some s0 \<Rightarrow> location s0)
                  \<and> geocoded_location s = (case site_of (sites st) k of
                                     None \<Rightarrow> None | Some s0 \<Rightarrow> geocoded_location s0)))"
proof (intro conjI allI impI)
  from falsy have no: "\<not> has_coordinates rt d" by (auto simp: has_coordinates_def)
  show "process_device rt net n i st (JObj d)
          = process_device rt net n i st (JObj (without_coordinates d))"
    by (simp add: process_device_def Let_def locate_without_coordinates [OF no]
          locate_without_coordinates [OF without_has_no_coordinates]
          dict_get_without device_info_without cong: sum.case_cong)
  fix st'
  assume step: "process_device rt net n i st (JObj d) = Inr st'"
  from process_device_step [OF step] obtain loc k where
    l: "locate rt net (geo st, print (progress_line rt n i d) (out st)) d
          = Inr (loc, geo st', out st')"
    and k: "dict_key rt (dict_get d ''site-id'' (JStr ''unknown'')) = Inr k"
    and upd: "\<And>k'. site_of (sites st') k' =
        (if k' = k
         then Some (site_after (case site_of (sites st) k of Some s \<Rightarrow> s | None \<Rightarrow> new_site) loc
                      (dict_get d ''device-type'' JNull) (device_info_of d))
         else site_of (sites st) k')"
    by blast
  from l locate_without_coordinates [OF no]
  have loc: "loc = None" and g: "geo st' = geo st"
    and w: "out st' = print (progress_line rt n i d) (out st)" by simp_all
  show "geo st' = geo st" by (rule g)
  show "http_log (out st') = http_log (out st)" by (simp add: w print_def)
  let ?s = "site_after (case site_of (sites st) k of Some s \<Rightarrow> s | None \<Rightarrow> new_site) None
              (dict_get d ''device-type'' JNull) (device_info_of d)"
  have "device_site rt (JObj d) = Some k \<and> site_of (sites st') k = Some ?s
        \<and> last (devices ?s) = device_info_of d
        \<and> dev_location (last (devices ?s)) = None
        \<and> location ?s = (case site_of (sites st) k of None \<Rightarrow> None | Some s0 \<Rightarrow> location s0)
        \<and> geocoded_location ?s = (case site_of (sites st) k of
                                     None \<Rightarrow> None | Some s0 \<Rightarrow> geocoded_location s0)"
    using k
    by (auto simp: device_site_def upd loc location_after geocoded_location_after devices_after
                   new_site_fields device_info_of_def split: option.splits)
  then show "\<exists>k s. device_site rt (JObj d) = Some k \<and> site_of (sites st') k = Some s
                  \<and> last (devices s) = device_info_of d
                  \<and> dev_location (last (devices s)) = None
                  \<and> location s = (case site_of (sites st) k of
                                     None \<Rightarrow> None | Some s0 \<Rightarrow> location s0)
                  \<and> geocoded_location s = (case site_of (sites st) k of
                                     None \<Rightarrow> None | Some s0 \<Rightarrow> geocoded_location s0)"
    by - (rule exI | assumption)+
qed


theorem falsy_coordinates_ignored_witness:
  "\<not> py_truthy sample_runtime (JFloat 0)
   \<and> py_truthy sample_runtime (JStr ''-78'')
   \<and> (case process_device sample_runtime sf_net 1 0 start equator of
         Inl e \<Rightarrow> False
       | Inr st \<Rightarrow>
           http_log (out st) = []
           \<and> (case site_of (sites st) (KeyStr ''200'') of
                 None \<Rightarrow> False
               | Some s \<Rightarrow> location s = None \<and> dev_location (last (devices s)) = None))"
proof -
  let ?d = "[(''site-id'', JStr ''200''), (''host-name'', JStr ''quito''),
             (''device-type'', JStr ''vedge''), (''latitude'', JFloat 0),
             (''longitude'', JStr ''-78'')] :: (string \<times> int json) list"
  have eq: "equator = JObj ?d" by (simp add: equator_def)
  have t: "\<not> py_truthy sample_runtime (JFloat 0)" "py_truthy sample_runtime (JStr ''-78'')"
    by (simp_all add: sample_runtime_def)
  have falsy: "\<not> py_truthy sample_runtime (dict_get ?d ''latitude'' JNull)
               \<or> \<not> py_truthy sample_runtime (dict_get ?d ''longitude'' JNull)"
    by (simp add: dict_get_def sample_runtime_def)
  have site: "device_site sample_runtime (JObj ?d) = Some (KeyStr ''200'')"
    by code_simp
  have "\<not> isl (process_device sample_runtime sf_net 1 0 start equator)"
    by code_simp
  then obtain st' where
    step: "process_device sample_runtime sf_net 1 0 start equator = Inr st'"
    by (cases "process_device sample_runtime sf_net 1 0 start equator") auto
  from falsy_coordinates_ignored [OF falsy, of sf_net 1 0 start, THEN conjunct2, rule_format,
         OF step [unfolded eq]] site
  obtain s where "http_log (out st') = http_log (out start)"
    "site_of (sites st') (KeyStr ''200'') = Some s"
    "dev_location (last (devices s)) = None"
    "location s = (case site_of (sites start) (KeyStr ''200'') of
                     None \<Rightarrow> None | Some s0 \<Rightarrow> location s0)"
    by auto
  moreover have "site_of (sites start) (KeyStr ''200'') = None" "http_log (out start) = []"
    by (simp_all add: start_def world0_def site_of_def)
  ultimately show ?thesis
    unfolding step using t by simp
qed







section \<open>Properties of the controller client and of the program\<close>

text \<open>
  Claim C6 does not hold for transport errors: when \<open>requests\<close> raises, each of the three
  methods ends with the exception instead of returning \<open>False\<close> or \<open>None\<close>.
\<close>

theorem transport_error_counterexample:
  "isl (authenticate unreachable_net (extractor0, world0))
   \<and> projl (authenticate unreachable_net (extractor0, world0))
       = PyExc ''ConnectionError'' ''Max retries exceeded with url: /j_security_check''
   \<and> isl (get_devices unreachable_net (extractor0, world0))
   \<and> isl (get_tloc_data unreachable_net (extractor0, world0))"
  by (simp add: authenticate_def get_devices_def get_tloc_data_def fetch_json_def http_send_def
        unreachable_net_def)

lemma fetch_json_cases:
  "(let answer = fst (http_send net w (get_request self path));
        w1 = w\<lparr>http_log := http_log w @ [get_request self path]\<rparr>
    in (\<forall>e. answer = Inl e \<longrightarrow> fetch_json net (self, w) path = Inl e)
     \<and> (\<forall>r. answer = Inr r \<and> status_code r \<noteq> 200
            \<longrightarrow> fetch_json net (self, w) path = Inr (JNull, w1))
     \<and> (\<forall>r e. answer = Inr r \<and> status_code r = 200 \<and> resp_json r = Inl e
            \<longrightarrow> fetch_json net (self, w) path = Inl e)
     \<and> (\<forall>r v. answer = Inr r \<and> status_code r = 200 \<and> resp_json r = Inr v
            \<longrightarrow> fetch_json net (self, w) path = Inr (v, w1)))"
  by (auto simp: fetch_json_def http_send_def Let_def)

text \<open>
  Claim C6, amended. \<open>authenticate\<close> returns \<open>False\<close> without raising when the login or the
  token request is answered with a status other than 200, and it returns \<open>True\<close> only if
  both were answered with status 200; \<open>get_devices\<close> and \<open>get_tloc_data\<close> return \<open>None\<close> when
  the status is not 200 and the decoded body when it is. An exception raised by a request
  (a transport error) or by the decoding of a body with status 200 is not caught: it
  leaves the method.
\<close>

theorem controller_failure_signals:
  "(let login = fst (http_send net w (login_request self));
        w1 = w\<lparr>http_log := http_log w @ [login_request self]\<rparr>;
        token_answer = fst (http_send net w1 (get_request self ''/dataservice/client/token''));
        w2 = w1\<lparr>http_log := http_log w1 @ [get_request self ''/dataservice/client/token'']\<rparr>
    in (\<forall>e. login = Inl e \<longrightarrow> authenticate net (self, w) = Inl e)
     \<and> (\<forall>r. login = Inr r \<and> status_code r \<noteq> 200
            \<longrightarrow> authenticate net (self, w) = Inr (False, self, w1))
     \<and> (\<forall>r e. login = Inr r \<and> status_code r = 200 \<and> token_answer = Inl e
            \<longrightarrow> authenticate net (self, w) = Inl e)
     \<and> (\<forall>r t. login = Inr r \<and> status_code r = 200 \<and> token_answer = Inr t \<and> status_code t \<noteq> 200
            \<longrightarrow> authenticate net (self, w) = Inr (False, self, w2))
     \<and> (\<forall>self' w'. authenticate net (self, w) = Inr (True, self', w')
            \<longrightarrow> (\<exists>r t. login = Inr r \<and> status_code r = 200
                       \<and> token_answer = Inr t \<and> status_code t = 200
                       \<and> token self' = Some (resp_text t) \<and> w' = w2)))
   \<and> (let answer = fst (http_send net w (get_request self ''/dataservice/device''));
          w1 = w\<lparr>http_log := http_log w @ [get_request self ''/dataservice/device'']\<rparr>
      in (\<forall>e. answer = Inl e \<longrightarrow> get_devices net (self, w) = Inl e)
       \<and> (\<forall>r. answer = Inr r \<and> status_code r \<noteq> 200
              \<longrightarrow> get_devices net (self, w) = Inr (JNull, w1))
       \<and> (\<forall>r e. answer = Inr r \<and> status_code r = 200 \<and> resp_json r = Inl e
              \<longrightarrow> get_devices net (self, w) = Inl e)
       \<and> (\<forall>r v. answer = Inr r \<and> status_code r = 200 \<and> resp_json r = Inr v
              \<longrightarrow> get_devices net (self, w) = Inr (v, w1)))
   \<and> (let answer = fst (http_send net w (get_request self ''/dataservice/device/tloc''));
          w1 = w\<lparr>http_log := http_log w @ [get_request self ''/dataservice/device/tloc'']\<rparr>
      in (\<forall>e. answer = Inl e \<longrightarrow> get_tloc_data net (self, w) = Inl e)
       \<and> (\<forall>r. answer = Inr r \<and> status_code r \<noteq> 200
              \<longrightarrow> get_tloc_data net (self, w) = Inr (JNull, w1))
       \<and> (\<forall>r e. answer = Inr r \<and> status_code r = 200 \<and> resp_json r = Inl e
              \<longrightarrow> get_tloc_data net (self, w) = Inl e)
       \<and> (\<forall>r v. answer = Inr r \<and> status_code r = 200 \<and> resp_json r = Inr v
              \<longrightarrow> get_tloc_data net (self, w) = Inr (v, w1)))"
proof (intro conjI)
  show "let login = fst (http_send net w (login_request self));
        w1 = w\<lparr>http_log := http_log w @ [login_request self]\<rparr>;
        token_answer = fst (http_send net w1 (get_request self ''/dataservice/client/token''));
        w2 = w1\<lparr>http_log := http_log w1 @ [get_request self ''/dataservice/client/token'']\<rparr>
    in (\<forall>e. login = Inl e \<longrightarrow> authenticate net (self, w) = Inl e)
     \<and> (\<forall>r. login = Inr r \<and> status_code r \<noteq> 200
            \<longrightarrow> authenticate net (self, w) = Inr (False, self, w1))
     \<and> (\<forall>r e. login = Inr r \<and> status_code r = 200 \<and> token_answer = Inl e
            \<longrightarrow> authenticate net (self, w) = Inl e)
     \<and> (\<forall>r t. login = Inr r \<and> status_code r = 200 \<and> token_answer = Inr t \<and> status_code t \<noteq> 200
            \<longrightarrow> authenticate net (self, w) = Inr (False, self, w2))
     \<and> (\<forall>self' w'. authenticate net (self, w) = Inr (True, self', w')
            \<longrightarrow> (\<exists>r t. login = Inr r \<and> status_code r = 200
                       \<and> token_answer = Inr t \<and> status_code t = 200
                       \<and> token self' = Some (resp_text t) \<and> w' = w2))"
    by (auto simp: authenticate_def http_send_def Let_def split: sum.splits if_splits)
  show "let answer = fst (http_send net w (get_request self ''/dataservice/device''));
          w1 = w\<lparr>http_log := http_log w @ [get_request self ''/dataservice/device'']\<rparr>
      in (\<forall>e. answer = Inl e \<longrightarrow> get_devices net (self, w) = Inl e)
       \<and> (\<forall>r. answer = Inr r \<and> status_code r \<noteq> 200
              \<longrightarrow> get_devices net (self, w) = Inr (JNull, w1))
       \<and> (\<forall>r e. answer = Inr r \<and> status_code r = 200 \<and> resp_json r = Inl e
              \<longrightarrow> get_devices net (self, w) = Inl e)
       \<and> (\<forall>r v. answer = Inr r \<and> status_code r = 200 \<and> resp_json r = Inr v
              \<longrightarrow> get_devices net (self, w) = Inr (v, w1))"
    unfolding get_devices_def by (rule fetch_json_cases)
  show "let answer = fst (http_send net w (get_request self ''/dataservice/device/tloc''));
          w1 = w\<lparr>http_log := http_log w @ [get_request self ''/dataservice/device/tloc'']\<rparr>
      in (\<forall>e. answer = Inl e \<longrightarrow> get_tloc_data net (self, w) = Inl e)
       \<and> (\<forall>r. answer = Inr r \<and> status_code r \<noteq> 200
              \<longrightarrow> get_tloc_data net (self, w) = Inr (JNull, w1))
       \<and> (\<forall>r e. answer = Inr r \<and> status_code r = 200 \<and> resp_json r = Inl e
              \<longrightarrow> get_tloc_data net (self, w) = Inl e)
       \<and> (\<forall>r v. answer = Inr r \<and> status_code r = 200 \<and> resp_json r = Inr v
              \<longrightarrow> get_tloc_data net (self, w) = Inr (v, w1))"
    unfolding get_tloc_data_def by (rule fetch_json_cases)
qed


theorem controller_failure_signals_witness:
  "authenticate unreachable_net (extractor0, world0)
     = Inl (PyExc ''ConnectionError'' ''Max retries exceeded with url: /j_security_check'')
   \<and> authenticate bad_login_net (extractor0, world0)
     = Inr (False, extractor0, \<lparr>http_log = [login_request extractor0], stdout = []\<rparr>)
   \<and> get_devices no_inventory_net (extractor0, world0)
     = Inr (JNull, \<lparr>http_log = [get_request extractor0 ''/dataservice/device''], stdout = []\<rparr>)
   \<and> get_tloc_data bad_login_net (extractor0, world0)
     = Inr (JNull, \<lparr>http_log = [get_request extractor0 ''/dataservice/device/tloc''], stdout = []\<rparr>)"
proof -
  have url: "req_url (get_request extractor0 ''/dataservice/device'') = BASE_URL @ ''/dataservice/device''"
    by (simp add: get_request_def extractor0_def SDWANSiteExtractorWithGeo_def rstrip_def BASE_URL_def)
  have a1: "fst (http_send unreachable_net world0 (login_request extractor0))
              = Inl (PyExc ''ConnectionError'' ''Max retries exceeded with url: /j_security_check'')"
    by (simp add: http_send_def unreachable_net_def)
  have a2: "fst (http_send bad_login_net world0 (login_request extractor0))
              = Inr \<lparr>status_code = 403, resp_text = ''Forbidden'', resp_json = Inr JNull\<rparr>"
    by (simp add: http_send_def bad_login_net_def)
  have a3: "fst (http_send no_inventory_net world0 (get_request extractor0 ''/dataservice/device''))
              = Inr \<lparr>status_code = 500, resp_text = ''Internal Server Error'',
                     resp_json = Inl (PyExc ''JSONDecodeError''
                                        ''Expecting value: line 1 column 1 (char 0)'')\<rparr>"
    by (simp add: http_send_def no_inventory_net_def url)
  have a4: "fst (http_send bad_login_net world0 (get_request extractor0 ''/dataservice/device/tloc''))
              = Inr \<lparr>status_code = 403, resp_text = ''Forbidden'', resp_json = Inr JNull\<rparr>"
    by (simp add: http_send_def bad_login_net_def)
  have c1: "authenticate unreachable_net (extractor0, world0)
     = Inl (PyExc ''ConnectionError'' ''Max retries exceeded with url: /j_security_check'')"
    using controller_failure_signals [of unreachable_net world0 extractor0]
    by (simp add: Let_def a1)
  have c2: "authenticate bad_login_net (extractor0, world0)
     = Inr (False, extractor0, world0\<lparr>http_log := http_log world0 @ [login_request extractor0]\<rparr>)"
    using controller_failure_signals [of bad_login_net world0 extractor0]
    by (simp add: Let_def a2)
  have c3: "get_devices no_inventory_net (extractor0, world0)
     = Inr (JNull, world0\<lparr>http_log := http_log world0 @ [get_request extractor0 ''/dataservice/device'']\<rparr>)"
    using controller_failure_signals [of no_inventory_net world0 extractor0]
    by (simp add: Let_def a3)
  have c4: "get_tloc_data bad_login_net (extractor0, world0)
     = Inr (JNull, world0\<lparr>http_log := http_log world0 @ [get_request extractor0 ''/dataservice/device/tloc'']\<rparr>)"
    using controller_failure_signals [of bad_login_net world0 extractor0]
    by (simp add: Let_def a4)
  show ?thesis
    unfolding c1 c2 c3 c4 by (simp add: world0_def)
qed

text \<open>
  Claim C8, on the code: a controller that lets the program log in and answers the
  inventory request with status 500. The failure is reported twice and ends the run, but
  \<open>main\<close> returns and the exit status is 0; a refused login ends in \<open>sys.exit(1)\<close>.
\<close>

theorem inventory_failure_exit_code:
  "exit_code (main sample_runtime no_inventory_net writable world0) = 0
   \<and> outcome_stdout (main sample_runtime no_inventory_net writable world0)
       = [''Cisco SD-WAN Site Hierarchy Extraction with Geocoding'',
          ''Target: https://sandbox-sdwan-2.cisco.com'',
          newline @ ''Authenticating...'',
          ''SUCCESS: Authentication successful'',
          newline @ ''Extracting sites with location mapping...'',
          ''Getting device data...'',
          ''ERROR: Failed to get device data'',
          ''ERROR: Failed to extract site hierarchy'']
   \<and> exit_code (main sample_runtime bad_login_net writable world0) = 1
   \<and> outcome_stdout (main sample_runtime bad_login_net writable world0)
       = [''Cisco SD-WAN Site Hierarchy Extraction with Geocoding'',
          ''Target: https://sandbox-sdwan-2.cisco.com'',
          newline @ ''Authenticating...'',
          ''ERROR: Authentication failed'']"
  by code_simp

section \<open>Properties of the location summary\<close>

text \<open>
  Claim C9 does not hold for the order within a group or for the counts: an inventory
  with a device of site 200 before a device of site 100, both in one country, gives a
  mapping with the key 200 before the key 100; the summary prints the two sites in that
  order, and the only numbers it prints are the numbers of groups.
\<close>

theorem summary_order_counterexample:
  "\<not> isl (process_devices sample_runtime sf_net 2 0 start [s200, s100])
   \<and> map fst (sites (projr (process_devices sample_runtime sf_net 2 0 start [s200, s100])))
       = [KeyStr ''200'', KeyStr ''100'']
   \<and> sites (projr (process_devices sample_runtime sf_net 2 0 start [s200, s100])) = two_sites
   \<and> summary_lines sample_runtime two_sites =
       Inr [newline @ ''Countries (1):'',
            ''   United States: Site 200, Site 100'',
            newline @ ''Cities (1):'',
            ''   San Francisco, California, United States: Site 200, Site 100'']"
  by code_simp

lemma members_snoc:
  "members (es @ [e]) c = members es c @ (if fst e = c then [snd e] else [])"
  by (simp add: members_def)

lemma members_absent: "c \<notin> fst ` set es \<Longrightarrow> members es c = []"
  by (auto simp: members_def filter_empty_conv)

lemma holds_empty: "holds [] []"
  by (auto simp: holds_def split: py_key.splits)

lemma holds_add:
  assumes "holds gs es"
  shows "holds (add_entry e gs) (es @ [e])"
proof -
  from assms have d: "distinct (map fst gs)"
    and m: "\<And>k. map_of gs k =
            (case k of
               KeyStr c \<Rightarrow> if c \<in> fst ` set es then Some (JStr c, members es c) else None
             | _ \<Rightarrow> None)"
    by (simp_all add: holds_def)
  have "distinct (map fst (add_entry e gs))"
    unfolding add_entry_def by (rule distinct_update [OF d])
  moreover have "map_of (add_entry e gs) k =
            (case k of
               KeyStr c \<Rightarrow> if c \<in> fst ` set (es @ [e])
                           then Some (JStr c, members (es @ [e]) c) else None
             | _ \<Rightarrow> None)" for k
    by (cases k) (auto simp: add_entry_def update_conv' m members_snoc members_absent)
  ultimately show ?thesis by (simp add: holds_def)
qed

lemma holds_fold:
  "holds gs es \<Longrightarrow> holds (fold add_entry es' gs) (es @ es')"
proof (induction es' arbitrary: gs es)
  case Nil
  then show ?case by simp
next
  case (Cons e es')
  from Cons.IH [OF holds_add [OF Cons.prems, of e]] show ?case by simp
qed

lemma holds_set:
  assumes "holds gs es"
  shows "set gs = group_of es ` fst ` set es"
proof -
  from assms have d: "distinct (map fst gs)"
    and m: "\<And>k. map_of gs k =
            (case k of
               KeyStr c \<Rightarrow> if c \<in> fst ` set es then Some (JStr c, members es c) else None
             | _ \<Rightarrow> None)"
    by (simp_all add: holds_def)
  have "x \<in> set gs \<longleftrightarrow> x \<in> group_of es ` fst ` set es" for x
  proof -
    obtain k v where x: "x = (k, v)" by (cases x)
    have "x \<in> set gs \<longleftrightarrow> map_of gs k = Some v"
      using d by (simp add: x)
    also have "\<dots> \<longleftrightarrow> (\<exists>c. c \<in> fst ` set es \<and> k = KeyStr c \<and> v = (JStr c, members es c))"
      by (cases k) (auto simp: m)
    also have "\<dots> \<longleftrightarrow> x \<in> group_of es ` fst ` set es"
      by (auto simp: x group_of_def)
    finally show ?thesis .
  qed
  then show ?thesis by blast
qed


lemma py_less_str:
  "fst x = KeyStr a \<Longrightarrow> fst y = KeyStr b \<Longrightarrow>
   py_less rt (fst y, fst (snd y)) (fst x, fst (snd x)) = Inr (b < a)"
  by simp

lemma insort_item_str:
  assumes "\<exists>c. fst x = KeyStr c" and "\<forall>y\<in>set ys. \<exists>c. fst y = KeyStr c"
  shows "insort_item rt x ys = Inr (insort_key label_of x ys)"
  using assms(2)
proof (induction ys)
  case Nil
  then show ?case by simp
next
  case (Cons y ys)
  from assms(1) obtain a where a: "fst x = KeyStr a" ..
  from Cons.prems obtain b where b: "fst y = KeyStr b" by auto
  from Cons have IH: "insort_item rt x ys = Inr (insort_key label_of x ys)" by simp
  have lx: "label_of x = a" and ly: "label_of y = b"
    by (simp_all add: label_of_def a b)
  show ?case
    by (auto simp: py_less_str [OF a b] IH lx ly)
qed

lemma py_sorted_str:
  assumes "\<forall>y\<in>set gs. \<exists>c. fst y = KeyStr c"
  shows "py_sorted rt gs = Inr (sort_key label_of gs)"
  using assms
proof (induction gs)
  case Nil
  then show ?case by simp
next
  case (Cons x gs)
  then have IH: "py_sorted rt gs = Inr (sort_key label_of gs)" by simp
  from Cons.prems have "\<exists>c. fst x = KeyStr c"
    and "\<forall>y\<in>set (sort_key label_of gs). \<exists>c. fst y = KeyStr c" by simp_all
  from insort_item_str [OF this] IH show ?case by simp
qed

lemma holds_keys:
  assumes "holds gs es"
  shows "\<forall>y\<in>set gs. \<exists>c. fst y = KeyStr c"
  unfolding holds_set [OF assms] by (auto simp: group_of_def)

lemma sorted_groups:
  assumes "holds gs es"
  shows "sort_key label_of gs = map (group_of es) (sort (remdups (map fst es)))"
proof -
  let ?r = "sort_key label_of gs"
  have set_r: "set ?r = group_of es ` fst ` set es"
    by (simp add: holds_set [OF assms])
  have self: "group_of es (label_of x) = x" if "x \<in> set ?r" for x
    using that unfolding set_r by (auto simp: group_of_def label_of_def)
  have "map (group_of es \<circ> label_of) ?r = ?r"
    by (rule map_idI) (simp add: self)
  then have r: "?r = map (group_of es) (map label_of ?r)"
    by simp
  from assms have "distinct (map fst gs)" by (simp add: holds_def)
  then have "distinct gs" by (simp add: distinct_map)
  then have dr: "distinct ?r" by simp
  have "inj_on label_of (set ?r)"
    by (rule inj_on_inverseI) (rule self)
  with dr have d: "distinct (map label_of ?r)" by (simp add: distinct_map)
  have s: "set (map label_of ?r) = set (sort (remdups (map fst es)))"
    unfolding set_map set_r by (force simp: group_of_def label_of_def)
  have "map label_of ?r = sort (remdups (map fst es))"
    by (rule sorted_distinct_set_unique [OF sorted_sort_key d _ _ s]) simp_all
  with r show ?thesis by simp
qed

lemma group_line_of:
  "group_line rt (group_of es c) = ''   '' @ c @ '': '' @ intercalate '', '' (members es c)"
  by (simp add: group_line_def group_of_def)

lemma sorted_lines:
  assumes "holds gs es"
  shows "py_sorted rt gs = Inr (sort_key label_of gs)"
    and "map (group_line rt) (sort_key label_of gs) = group_lines es"
    and "length gs = length (remdups (map fst es))"
proof -
  show "py_sorted rt gs = Inr (sort_key label_of gs)"
    by (rule py_sorted_str [OF holds_keys [OF assms]])
  show "map (group_line rt) (sort_key label_of gs) = group_lines es"
    by (simp add: sorted_groups [OF assms] group_lines_def group_line_of comp_def)
  have "length gs = length (sort_key label_of gs)" by simp
  also have "\<dots> = length (remdups (map fst es))"
    by (simp only: sorted_groups [OF assms] length_map length_sort)
  finally show "length gs = length (remdups (map fst es))" .
qed

lemma group_append_str:
  "group_append rt gs (JStr c) t = Inr (add_entry (c, t) gs)"
  by (simp add: group_append_def add_entry_def split: option.splits)

lemma summary_groups_str:
  assumes "string_countries ss"
  shows "summary_groups rt (cs, ts) ss =
           Inr (fold add_entry (country_entries rt ss) cs, fold add_entry (city_entries rt ss) ts)"
  using assms
proof (induction ss arbitrary: cs ts)
  case Nil
  then show ?case by (simp add: country_entries_def city_entries_def located_def)
next
  case (Cons x ss)
  obtain k site_id s where x: "x = (k, site_id, s)" by (cases x)
  from Cons.prems have rest: "string_countries ss"
    by (simp add: string_countries_def located_def)
  show ?case
  proof (cases "geocoded_location s")
    case None
    then have "located (x # ss) = located ss" by (simp add: located_def x)
    then have "country_entries rt (x # ss) = country_entries rt ss"
      "city_entries rt (x # ss) = city_entries rt ss"
      by (simp_all add: country_entries_def city_entries_def)
    with None Cons.IH [OF rest] show ?thesis by (simp add: x)
  next
    case (Some g)
    then have loc: "located (x # ss) = (site_id, g) # located ss" by (simp add: located_def x)
    with Cons.prems obtain c where c: "country g = JStr c"
      by (auto simp: string_countries_def split: json.splits)
    have ce: "country_entries rt (x # ss) = (c, ''Site '' @ py_format rt site_id) # country_entries rt ss"
      by (simp add: country_entries_def loc country_label_def c site_text_def)
    have te: "city_entries rt (x # ss) =
                (py_format rt (city g) @ '', '' @ py_format rt (state g) @ '', '' @ c,
                 ''Site '' @ py_format rt site_id) # city_entries rt ss"
      by (simp add: city_entries_def loc city_label_def c site_text_def)
    show ?thesis
      by (simp add: x Some c group_append_str ce [unfolded x] te [unfolded x] Cons.IH [OF rest])
  qed
qed

text \<open>
  Claim C9, amended. For every site mapping whose resolved countries are strings, the
  summary prints what \<open>summary_spec\<close> says: the number of different countries, then one
  line per country in lexicographic order, each holding the country and the texts
  \<open>Site <key>\<close> of its sites in the order of the mapping; then the same for the labels
  \<open>city, state, country\<close>. No count per group is printed and the site keys of a group are
  not sorted.
\<close>

theorem location_summary_groups:
  assumes "string_countries ss"
  shows "summary_lines rt ss = Inr (summary_spec rt ss)
       \<and> generate_location_summary rt ss w
           = Inr (print_all ([newline @ ''LOCATION SUMMARY'', replicate 40 CHR ''-'']
                             @ summary_spec rt ss) w)"
proof -
  let ?cs = "fold add_entry (country_entries rt ss) ([] :: 'a groups)"
  let ?ts = "fold add_entry (city_entries rt ss) ([] :: 'a groups)"
  have g: "summary_groups rt ([], []) ss = Inr (?cs, ?ts)"
    by (rule summary_groups_str [OF assms])
  have hc: "holds ?cs (country_entries rt ss)"
    using holds_fold [OF holds_empty, of "country_entries rt ss"] by simp
  have ht: "holds ?ts (city_entries rt ss)"
    using holds_fold [OF holds_empty, of "city_entries rt ss"] by simp
  have "summary_lines rt ss = Inr (summary_spec rt ss)"
    by (simp add: summary_lines_def g sorted_lines [OF hc] sorted_lines [OF ht] summary_spec_def)
  then show ?thesis
    by (simp add: generate_location_summary_def)
qed


theorem location_summary_groups_witness:
  "string_countries three_sites
   \<and> summary_lines sample_runtime three_sites = Inr (summary_spec sample_runtime three_sites)
   \<and> summary_spec sample_runtime three_sites =
       [newline @ ''Countries (2):'',
        ''   Deutschland: Site 300'',
        ''   United States: Site 200, Site 100'',
        newline @ ''Cities (2):'',
        ''   Leipzig, Sachsen, Deutschland: Site 300'',
        ''   San Francisco, California, United States: Site 200, Site 100'']"
proof -
  have s: "string_countries three_sites"
    by code_simp
  have v: "summary_spec sample_runtime three_sites =
       [newline @ ''Countries (2):'',
        ''   Deutschland: Site 300'',
        ''   United States: Site 200, Site 100'',
        newline @ ''Cities (2):'',
        ''   Leipzig, Sachsen, Deutschland: Site 300'',
        ''   San Francisco, California, United States: Site 200, Site 100'']"
    by code_simp
  from location_summary_groups [OF s, of sample_runtime world0] s v
  show ?thesis by simp
qed

end
